theory Spec2Isabelle
  imports Main "HOL-Library.Word"
begin

section \<open>Values\<close>

text \<open>
  Go's fixed-width integers are 64-bit words whose arithmetic wraps: a \<open>uint64\<close> is read
  with \<open>unat\<close>, an \<open>int64\<close> or an \<open>int\<close> (64 bits on the platforms the client is built
  for) with \<open>sint\<close>.
  A \<open>float64\<close> is carried as its 64-bit pattern, whose zero value is the word 0.
\<close>

type_synonym uint64 = "64 word"
type_synonym int64 = "64 word"
type_synonym goint = "64 word"
type_synonym float64 = "64 word"

text \<open>
  \<open>time.Time\<close>: the zero value, or the instant \<open>time.Unix(0, nsec).UTC()\<close> built by the
  decoders.
\<close>

datatype Time = TimeZero | TimeUnixUTC int64

text \<open>
  What \<open>encoding/json\<close> puts into an \<open>interface{}\<close> when the decoder runs with
  \<open>UseNumber\<close>: \<open>nil\<close> for \<open>null\<close>, \<open>bool\<close>, \<open>json.Number\<close> (the literal's text),
  \<open>string\<close>, \<open>[]interface{}\<close> and \<open>map[string]interface{}\<close>.
\<close>

datatype jval =
    JNull
  | JBool bool
  | JNumber string
  | JString string
  | JArray "jval list"
  | JObject "(string \<times> jval) list"

text \<open>
  Values of the \<open>tezos\<close> and \<open>micheline\<close> libraries are opaque to this repository: the
  model carries each by the bytes the library holds, and every library function is a
  field of the environment \<open>ext\<close> below. The zero value of each type is the one built from
  the empty byte string.
\<close>

datatype tezos_Hash = TzHash string
datatype tezos_Address = TzAddress string
datatype micheline_Prim = MPrim string
datatype micheline_Type = MType micheline_Prim
datatype micheline_Typedef = MTypedef string
datatype micheline_Entrypoint = MEntrypoint string

type_synonym OpStatus = nat
type_synonym VotingPeriodKind = nat

definition tezos_Hash_zero :: tezos_Hash where
  "tezos_Hash_zero = TzHash []"

definition tezos_Address_zero :: tezos_Address where
  "tezos_Address_zero = TzAddress []"

definition micheline_Prim_zero :: micheline_Prim where
  "micheline_Prim_zero = MPrim []"

definition micheline_Type_zero :: micheline_Type where
  "micheline_Type_zero = MType micheline_Prim_zero"

datatype DiffAction = DiffActionUpdate | DiffActionRemove | DiffActionCopy | DiffActionAlloc

record micheline_Parameters =
  Entrypoint :: string
  Value :: micheline_Prim

record BigmapEvent =
  Action :: DiffAction
  Id :: int64
  KeyHash :: tezos_Hash
  Key :: micheline_Prim
  Value :: micheline_Prim
  KeyType :: micheline_Prim
  ValueType :: micheline_Prim
  SourceId :: int64
  DestId :: int64

section \<open>Errors and panics\<close>

text \<open>
  A call ends in one of three ways: it returns normally, it returns an error value, or it
  panics. The error kinds are those of the specification's taxonomy, together with the
  errors the two files build with \<open>fmt.Errorf\<close> (their arguments kept as fields).
\<close>

datatype error =
    MalformedField string
  | InvalidEncoding string
  | BinaryDecodeError string
  | ValueProjectionError string
  | NotFound
  | TransportError string
  | JSONSyntaxError string
  | ExpectedJSONArray string
  | InvalidReceiverAddress string error
  | DecodingParams string error
  | DecodingStorage string error
  | DecodingBigmap int64 tezos_Hash error

datatype panic = TypeAssertion | IndexOutOfRange | NilDereference

datatype fault = Error error | Panic panic

definition returned :: "error + 'a \<Rightarrow> fault + 'a" where
  "returned r = (case r of Inl e \<Rightarrow> Inl (Error e) | Inr a \<Rightarrow> Inr a)"

definition assign :: "('a \<Rightarrow> 'r) \<Rightarrow> fault + 'a \<Rightarrow> fault + 'r" where
  "assign upd r = (case r of Inl e \<Rightarrow> Inl e | Inr a \<Rightarrow> Inr (upd a))"

text \<open>
  The unchecked type assertions \<open>f.(json.Number).String()\<close> and \<open>f.(string)\<close>: a value of
  another dynamic type panics.
\<close>

definition assert_Number :: "jval \<Rightarrow> fault + string" where
  "assert_Number f = (case f of JNumber s \<Rightarrow> Inr s | _ \<Rightarrow> Inl (Panic TypeAssertion))"

definition assert_string :: "jval \<Rightarrow> fault + string" where
  "assert_string f = (case f of JString s \<Rightarrow> Inr s | _ \<Rightarrow> Inl (Panic TypeAssertion))"

definition parse_Number :: "(string \<Rightarrow> error + 'a) \<Rightarrow> jval \<Rightarrow> fault + 'a" where
  "parse_Number p f = (case assert_Number f of Inl e \<Rightarrow> Inl e | Inr s \<Rightarrow> returned (p s))"

definition parse_string :: "(string \<Rightarrow> error + 'a) \<Rightarrow> jval \<Rightarrow> fault + 'a" where
  "parse_string p f = (case assert_string f of Inl e \<Rightarrow> Inl e | Inr s \<Rightarrow> returned (p s))"

section \<open>Records of the repository\<close>

text \<open>
  Modelled from the spec: the declarations of \<open>ContractValue\<close>, \<open>ContractParameters\<close>,
  \<open>MultiKey\<close>, \<open>BigmapMeta\<close>, \<open>BigmapValue\<close>, \<open>BigmapUpdate\<close>, \<open>ContractScript\<close>, \<open>OpType\<close>
  and \<open>Metadata\<close> are in files of the repository other than the two decoded here. Each
  record has the fields that \<open>op.go\<close> reads or writes (section 3 of the specification:
  a big-map update carries a big-map identifier, optional key/value type annotations, or
  a key, key hash and decoded value, plus optional provenance metadata of contract,
  height and timestamp; a contract type schema is the parameter type, storage type,
  entrypoint table and big-map-id to type mapping). A pointer is an \<open>option\<close>, a Go
  \<open>interface{}\<close> is a \<open>jval\<close> whose \<open>JNull\<close> is \<open>nil\<close>.
\<close>

type_synonym OpType = nat
type_synonym Metadata = jval

datatype MultiKey = MultiKey string

record ContractValue =
  Value :: jval
  Prim :: "micheline_Prim option"

record ContractParameters =
  ContractValue :: ContractValue
  Entrypoint :: string

record BigmapMeta =
  Contract :: tezos_Address
  BigmapId :: int64
  UpdateTime :: Time
  UpdateHeight :: int64

record BigmapValue =
  Key :: MultiKey
  Hash :: tezos_Hash
  Meta :: "BigmapMeta option"
  Value :: jval
  KeyPrim :: "micheline_Prim option"
  ValuePrim :: "micheline_Prim option"

record BigmapUpdate =
  BigmapValue :: BigmapValue
  Action :: DiffAction
  KeyType :: "micheline_Typedef option"
  ValueType :: "micheline_Typedef option"
  KeyTypePrim :: "micheline_Prim option"
  ValueTypePrim :: "micheline_Prim option"
  BigmapId :: int64
  SourceId :: int64
  DestId :: int64

type_synonym Entrypoints = "string \<rightharpoonup> micheline_Entrypoint"

record ContractScript =
  script_param :: micheline_Type
  script_store :: micheline_Type
  script_eps :: Entrypoints
  script_bigmaps :: "int64 \<rightharpoonup> micheline_Type"

definition ContractValue_zero :: ContractValue where
  "ContractValue_zero = \<lparr>ContractValue.Value = JNull, ContractValue.Prim = None\<rparr>"

definition ContractParameters_zero :: ContractParameters where
  "ContractParameters_zero =
     \<lparr>ContractParameters.ContractValue = ContractValue_zero, ContractParameters.Entrypoint = []\<rparr>"

definition BigmapValue_zero :: BigmapValue where
  "BigmapValue_zero =
     \<lparr>BigmapValue.Key = MultiKey [], BigmapValue.Hash = tezos_Hash_zero, BigmapValue.Meta = None,
      BigmapValue.Value = JNull, BigmapValue.KeyPrim = None, BigmapValue.ValuePrim = None\<rparr>"

definition BigmapUpdate_zero :: BigmapUpdate where
  "BigmapUpdate_zero =
     \<lparr>BigmapUpdate.BigmapValue = BigmapValue_zero, BigmapUpdate.Action = DiffActionUpdate,
      BigmapUpdate.KeyType = None, BigmapUpdate.ValueType = None,
      BigmapUpdate.KeyTypePrim = None, BigmapUpdate.ValueTypePrim = None,
      BigmapUpdate.BigmapId = 0, BigmapUpdate.SourceId = 0, BigmapUpdate.DestId = 0\<rparr>"

section \<open>Operations and blocks\<close>

text \<open>
  The struct \<open>Op\<close> of \<open>op.go\<close>. Its \<open>Batch\<close> and \<open>Internal\<close> fields hold pointers to
  further operations, so the type is recursive: the other fields, in the order of the
  source, are the record \<open>OpFields\<close>, and an operation is its fields with the two lists
  of children. A \<open>nil\<close> pointer in a list is \<open>None\<close>; a \<open>nil\<close> slice or map is the empty one.
\<close>

record OpFields =
  Id :: uint64
  Hash :: tezos_Hash
  Type :: OpType
  Block :: tezos_Hash
  Timestamp :: Time
  Height :: int64
  Cycle :: int64
  Counter :: int64
  OpN :: goint
  OpP :: goint
  Status :: OpStatus
  IsSuccess :: bool
  IsContract :: bool
  IsBatch :: bool
  IsEvent :: bool
  IsInternal :: bool
  GasLimit :: int64
  GasUsed :: int64
  StorageLimit :: int64
  StoragePaid :: int64
  Volume :: float64
  Fee :: float64
  Reward :: float64
  Deposit :: float64
  Burned :: float64
  TDD :: float64
  SenderId :: uint64
  ReceiverId :: uint64
  CreatorId :: uint64
  BakerId :: uint64
  Sender :: tezos_Address
  Receiver :: tezos_Address
  Creator :: tezos_Address
  Baker :: tezos_Address
  PrevBaker :: tezos_Address
  Source :: tezos_Address
  Offender :: tezos_Address
  Accuser :: tezos_Address
  Data :: string
  Errors :: string
  Parameters :: "ContractParameters option"
  Storage :: "ContractValue option"
  BigmapDiff :: "BigmapUpdate list"
  Value :: micheline_Prim
  Power :: goint
  Limit :: "float64 option"
  Confirmations :: int64
  BatchVolume :: float64
  Entrypoint :: string
  NOps :: goint
  Metadata :: "string \<rightharpoonup> Metadata"
  columns :: "string list"
  param :: micheline_Type
  store :: micheline_Type
  eps :: Entrypoints
  bigmaps :: "int64 \<rightharpoonup> micheline_Type"
  withPrim :: bool
  withMeta :: bool
  onError :: goint

datatype Op = Op (flds: OpFields) (Batch: "Op option list") (Internal: "Op option list")

definition OpFields_zero :: OpFields where
  "OpFields_zero =
     \<lparr>OpFields.Id = 0, OpFields.Hash = tezos_Hash_zero, OpFields.Type = 0,
      OpFields.Block = tezos_Hash_zero, OpFields.Timestamp = TimeZero, OpFields.Height = 0,
      OpFields.Cycle = 0, OpFields.Counter = 0, OpFields.OpN = 0, OpFields.OpP = 0,
      OpFields.Status = 0, OpFields.IsSuccess = False, OpFields.IsContract = False,
      OpFields.IsBatch = False, OpFields.IsEvent = False, OpFields.IsInternal = False,
      OpFields.GasLimit = 0, OpFields.GasUsed = 0, OpFields.StorageLimit = 0,
      OpFields.StoragePaid = 0, OpFields.Volume = 0, OpFields.Fee = 0, OpFields.Reward = 0,
      OpFields.Deposit = 0, OpFields.Burned = 0, OpFields.TDD = 0, OpFields.SenderId = 0,
      OpFields.ReceiverId = 0, OpFields.CreatorId = 0, OpFields.BakerId = 0,
      OpFields.Sender = tezos_Address_zero, OpFields.Receiver = tezos_Address_zero,
      OpFields.Creator = tezos_Address_zero, OpFields.Baker = tezos_Address_zero,
      OpFields.PrevBaker = tezos_Address_zero, OpFields.Source = tezos_Address_zero,
      OpFields.Offender = tezos_Address_zero, OpFields.Accuser = tezos_Address_zero,
      OpFields.Data = [], OpFields.Errors = [], OpFields.Parameters = None,
      OpFields.Storage = None, OpFields.BigmapDiff = [], OpFields.Value = micheline_Prim_zero,
      OpFields.Power = 0, OpFields.Limit = None, OpFields.Confirmations = 0,
      OpFields.BatchVolume = 0, OpFields.Entrypoint = [], OpFields.NOps = 0,
      OpFields.Metadata = Map.empty, OpFields.columns = [],
      OpFields.param = micheline_Type_zero, OpFields.store = micheline_Type_zero,
      OpFields.eps = Map.empty, OpFields.bigmaps = Map.empty, OpFields.withPrim = False,
      OpFields.withMeta = False, OpFields.onError = 0\<rparr>"


text \<open>The struct \<open>Block\<close>; \<open>Right\<close> is declared in another file and carried as a \<open>jval\<close>.\<close>

record Block =
  RowId :: uint64
  ParentId :: uint64
  ParentHash :: "tezos_Hash option"
  FollowerHash :: "tezos_Hash option"
  Hash :: tezos_Hash
  IsOrphan :: bool
  Height :: int64
  Cycle :: int64
  IsCycleSnapshot :: bool
  Timestamp :: Time
  Solvetime :: goint
  Version :: goint
  Validation :: goint
  Fitness :: uint64
  Priority :: goint
  Nonce :: string
  VotingPeriodKind :: VotingPeriodKind
  BakerId :: uint64
  Baker :: tezos_Address
  SlotMask :: string
  NSlotsEndorsed :: goint
  NOps :: goint
  NOpsFailed :: goint
  NOpsContract :: goint
  NOpsImplicit :: goint
  NTx :: goint
  NActivation :: goint
  NSeedNonce :: goint
  N2Baking :: goint
  N2Endorsement :: goint
  NEndorsement :: goint
  NDelegation :: goint
  NReveal :: goint
  NOrigination :: goint
  NProposal :: goint
  NBallot :: goint
  Volume :: float64
  Fee :: float64
  Reward :: float64
  Deposit :: float64
  UnfrozenFees :: float64
  UnfrozenRewards :: float64
  UnfrozenDeposits :: float64
  ActivatedSupply :: float64
  BurnedSupply :: float64
  SeenAccounts :: goint
  NewAccounts :: goint
  NewImplicitAccounts :: goint
  NewManagedAccounts :: goint
  NewContracts :: goint
  ClearedAccounts :: goint
  FundedAccounts :: goint
  GasLimit :: int64
  GasUsed :: int64
  GasPrice :: float64
  StorageSize :: int64
  TDD :: float64
  PctAccountReuse :: float64
  LbEscapeVote :: bool
  LbEscapeEma :: int64
  Metadata :: "string \<rightharpoonup> Metadata"
  Rights :: "jval list"
  Ops :: "Op option list"
  columns :: "string list"

definition Block_zero :: Block where
  "Block_zero =
     \<lparr>Block.RowId = 0, Block.ParentId = 0, Block.ParentHash = None, Block.FollowerHash = None,
      Block.Hash = tezos_Hash_zero, Block.IsOrphan = False, Block.Height = 0, Block.Cycle = 0,
      Block.IsCycleSnapshot = False, Block.Timestamp = TimeZero, Block.Solvetime = 0,
      Block.Version = 0, Block.Validation = 0, Block.Fitness = 0, Block.Priority = 0,
      Block.Nonce = [], Block.VotingPeriodKind = 0, Block.BakerId = 0,
      Block.Baker = tezos_Address_zero, Block.SlotMask = [], Block.NSlotsEndorsed = 0,
      Block.NOps = 0, Block.NOpsFailed = 0, Block.NOpsContract = 0, Block.NOpsImplicit = 0,
      Block.NTx = 0, Block.NActivation = 0, Block.NSeedNonce = 0, Block.N2Baking = 0,
      Block.N2Endorsement = 0, Block.NEndorsement = 0, Block.NDelegation = 0,
      Block.NReveal = 0, Block.NOrigination = 0, Block.NProposal = 0, Block.NBallot = 0,
      Block.Volume = 0, Block.Fee = 0, Block.Reward = 0, Block.Deposit = 0,
      Block.UnfrozenFees = 0, Block.UnfrozenRewards = 0, Block.UnfrozenDeposits = 0,
      Block.ActivatedSupply = 0, Block.BurnedSupply = 0, Block.SeenAccounts = 0,
      Block.NewAccounts = 0, Block.NewImplicitAccounts = 0, Block.NewManagedAccounts = 0,
      Block.NewContracts = 0, Block.ClearedAccounts = 0, Block.FundedAccounts = 0,
      Block.GasLimit = 0, Block.GasUsed = 0, Block.GasPrice = 0, Block.StorageSize = 0,
      Block.TDD = 0, Block.PctAccountReuse = 0, Block.LbEscapeVote = False,
      Block.LbEscapeEma = 0, Block.Metadata = Map.empty, Block.Rights = [], Block.Ops = [],
      Block.columns = []\<rparr>"

section \<open>The collaborators\<close>

text \<open>
  Modelled from the spec: the \<open>Client\<close> and its \<open>loadCachedContractScript\<close> are in another
  file of the repository. Section 4.2 makes the resolver a read-through cache keyed by
  contract address, so a client is its cache and a lookup returns the client it leaves
  behind. The Go function returns a script pointer and an error.
\<close>

record Client =
  cache :: "tezos_Address \<rightharpoonup> ContractScript"

text \<open>
  The functions the two files call and do not define: the Go standard library
  (\<open>encoding/json\<close>, \<open>strconv\<close> with base 10 and 64 bits, \<open>encoding/hex\<close>), the \<open>tezos\<close>
  and \<open>micheline\<close> packages, and \<open>ParseOpType\<close>, \<open>getTableColumn\<close> and
  \<open>loadCachedContractScript\<close> of the repository's other files. Every theorem holds for
  each environment. A call of a collaborator returns its value or its error: a panic
  raised inside a collaborator is not part of the model, and the panics below are those
  of the expressions of the two files themselves, the type assertions and the index
  expression \<open>unpacked[i]\<close>.

  \<^item> \<open>json_Decode\<close> is \<open>Decoder.Decode\<close> into a \<open>[]interface{}\<close> with \<open>UseNumber\<close>;
  \<^item> \<open>json_Unmarshal_RawMessages\<close> is \<open>json.Unmarshal\<close> into a \<open>[]json.RawMessage\<close>;
  \<^item> \<open>json_Unmarshal_Op\<close> and \<open>json_Unmarshal_Block\<close> are \<open>json.Unmarshal\<close> into the
    alias of the struct (the object form), returning the error and the struct left behind;
  \<^item> \<open>Value_Map t p r\<close> is \<open>Map\<close> of the \<open>micheline.NewValue(t, p)\<close> whose \<open>Render\<close> is \<open>r\<close>;
  \<^item> \<open>Event_GetKey_MarshalJSON v t\<close> is the first result of \<open>v.GetKey(t).MarshalJSON()\<close>
    and \<open>MultiKey_UnmarshalJSON b\<close> the key that \<open>UnmarshalJSON(b)\<close> leaves in an empty
    \<open>MultiKey\<close>: the source drops both errors.
\<close>

record ext =
  json_Decode :: "string \<Rightarrow> error + jval list"
  json_Unmarshal_RawMessages :: "string \<Rightarrow> error + string list"
  json_Unmarshal_Op :: "string \<Rightarrow> Op \<Rightarrow> fault option \<times> Op"
  json_Unmarshal_Block :: "string \<Rightarrow> Block \<Rightarrow> fault option \<times> Block"
  json_Marshal :: "jval \<Rightarrow> error + string"
  strconv_ParseUint :: "string \<Rightarrow> error + uint64"
  strconv_ParseInt :: "string \<Rightarrow> error + int64"
  strconv_Atoi :: "string \<Rightarrow> error + goint"
  strconv_ParseBool :: "string \<Rightarrow> error + bool"
  strconv_ParseFloat :: "string \<Rightarrow> nat \<Rightarrow> error + float64"
  hex_DecodeString :: "string \<Rightarrow> error + string"
  tezos_ParseOpHash :: "string \<Rightarrow> error + tezos_Hash"
  tezos_ParseBlockHash :: "string \<Rightarrow> error + tezos_Hash"
  tezos_ParseAddress :: "string \<Rightarrow> error + tezos_Address"
  tezos_ParseOpStatus :: "string \<Rightarrow> OpStatus"
  tezos_ParseVotingPeriod :: "string \<Rightarrow> VotingPeriodKind"
  ParseOpType :: "string \<Rightarrow> OpType"
  Parameters_UnmarshalBinary :: "string \<Rightarrow> error + micheline_Parameters"
  Parameters_MapEntrypoint ::
    "micheline_Parameters \<Rightarrow> micheline_Type \<Rightarrow> micheline_Entrypoint \<times> micheline_Prim"
  Entrypoint_Type :: "micheline_Entrypoint \<Rightarrow> micheline_Type"
  Value_Map :: "micheline_Type \<Rightarrow> micheline_Prim \<Rightarrow> goint \<Rightarrow> error + jval"
  Prim_UnmarshalBinary :: "string \<Rightarrow> error + micheline_Prim"
  Type_IsValid :: "micheline_Type \<Rightarrow> bool"
  Type_Left :: "micheline_Type \<Rightarrow> micheline_Type"
  Type_Right :: "micheline_Type \<Rightarrow> micheline_Type"
  Type_TypedefPtr :: "micheline_Type \<Rightarrow> string \<Rightarrow> micheline_Typedef option"
  Prim_BuildType :: "micheline_Prim \<Rightarrow> micheline_Type"
  Prim_IsEmptyBigmap :: "micheline_Prim \<Rightarrow> bool"
  BigmapEvents_UnmarshalBinary :: "string \<Rightarrow> error + BigmapEvent list"
  Event_GetKey_MarshalJSON :: "BigmapEvent \<Rightarrow> micheline_Type \<Rightarrow> string"
  MultiKey_UnmarshalJSON :: "string \<Rightarrow> MultiKey"
  getTableColumn :: "string \<Rightarrow> string list \<Rightarrow> string \<Rightarrow> string \<times> bool"
  loadCachedContractScript ::
    "Client \<Rightarrow> tezos_Address \<Rightarrow> (error + ContractScript option) \<times> Client"

section \<open>The columnar row decoder\<close>

text \<open>
  The loop of both \<open>UnmarshalJSONBrief\<close> functions:
  \<^verbatim>\<open>for i, v := range columns { f := unpacked[i]; if f == nil { continue };
    switch v { ... }; if err != nil { return err } }\<close>
  over the scratch record \<open>s\<close>. The index expression \<open>unpacked[i]\<close> panics out of range;
  \<open>step\<close> is the \<open>switch\<close>.
\<close>

fun range_columns ::
  "(string \<Rightarrow> jval \<Rightarrow> 's \<Rightarrow> fault + 's) \<Rightarrow> jval list \<Rightarrow> nat \<Rightarrow> string list \<Rightarrow> 's \<Rightarrow> fault + 's"
where
  "range_columns step unpacked i [] s = Inr s"
| "range_columns step unpacked i (v # vs) s =
     (if length unpacked \<le> i then Inl (Panic IndexOutOfRange)
      else if unpacked ! i = JNull then range_columns step unpacked (Suc i) vs s
      else (case step v (unpacked ! i) s of
              Inl e \<Rightarrow> Inl e
            | Inr s' \<Rightarrow> range_columns step unpacked (Suc i) vs s'))"

subsection \<open>Operations\<close>

text \<open>
  In the functions below \<open>rcv\<close> is the receiver \<open>o\<close> of the method, which the decoder only
  reads, and \<open>op\<close> is the scratch record \<open>op := Op{}\<close> that the columns fill.
\<close>

definition Op_column_entrypoint :: "jval \<Rightarrow> OpFields \<Rightarrow> fault + OpFields" where
  "Op_column_entrypoint f op =
     assign
       (\<lambda>s. op\<lparr>OpFields.Parameters :=
                  Some ((case OpFields.Parameters op of
                           None \<Rightarrow> ContractParameters_zero
                         | Some p \<Rightarrow> p)\<lparr>ContractParameters.Entrypoint := s\<rparr>),
                OpFields.Entrypoint := s\<rparr>)
       (assert_string f)"

definition Op_column_parameters :: "ext \<Rightarrow> Op \<Rightarrow> jval \<Rightarrow> OpFields \<Rightarrow> fault + OpFields" where
  "Op_column_parameters x rcv f op =
     (case assert_string f of
        Inl p \<Rightarrow> Inl p
      | Inr s \<Rightarrow>
         (case hex_DecodeString x s of
            Inl e \<Rightarrow> Inl (Error e)
          | Inr buf \<Rightarrow>
             if buf = [] then Inr op
             else
               (case Parameters_UnmarshalBinary x buf of
                  Inl e \<Rightarrow> Inl (Error e)
                | Inr params \<Rightarrow>
                   (case Parameters_MapEntrypoint x params (OpFields.param (flds rcv)) of
                      (ep, prim) \<Rightarrow>
                       (case Value_Map x (Entrypoint_Type x ep) prim
                               (OpFields.onError (flds rcv)) of
                          Inl e \<Rightarrow> Inl (Error (DecodingParams s e))
                        | Inr m \<Rightarrow>
                           Inr (op\<lparr>OpFields.Parameters :=
                                  Some \<lparr>ContractParameters.ContractValue =
                                          \<lparr>ContractValue.Value = m,
                                           ContractValue.Prim =
                                             (if OpFields.withPrim (flds rcv) then Some prim
                                              else None)\<rparr>,
                                        ContractParameters.Entrypoint =
                                          micheline_Parameters.Entrypoint params\<rparr>\<rparr>))))))"

definition Op_column_storage :: "ext \<Rightarrow> Op \<Rightarrow> jval \<Rightarrow> OpFields \<Rightarrow> fault + OpFields" where
  "Op_column_storage x rcv f op =
     (case assert_string f of
        Inl p \<Rightarrow> Inl p
      | Inr s \<Rightarrow>
         (case hex_DecodeString x s of
            Inl e \<Rightarrow> Inl (Error e)
          | Inr buf \<Rightarrow>
             if buf = [] then Inr op
             else
               (case Prim_UnmarshalBinary x buf of
                  Inl e \<Rightarrow> Inl (Error e)
                | Inr prim \<Rightarrow>
                   (let cv = ContractValue_zero
                          \<lparr>ContractValue.Prim :=
                             (if OpFields.withPrim (flds rcv) then Some prim else None)\<rparr>
                    in if Type_IsValid x (OpFields.store (flds rcv)) then
                         (case Value_Map x (OpFields.store (flds rcv)) prim
                                 (OpFields.onError (flds rcv)) of
                            Inl e \<Rightarrow> Inl (Error (DecodingStorage s e))
                          | Inr m \<Rightarrow>
                             Inr (op\<lparr>OpFields.Storage := Some (cv\<lparr>ContractValue.Value := m\<rparr>)\<rparr>))
                       else Inr (op\<lparr>OpFields.Storage := Some cv\<rparr>)))))"

text \<open>
  The key and value types of one big-map event: those of the receiver's \<open>bigmaps\<close> table
  when it has the event's identifier, else the type built from the key and the zero type.
\<close>

definition Op_bigmap_types :: "ext \<Rightarrow> Op \<Rightarrow> BigmapEvent \<Rightarrow> micheline_Type \<times> micheline_Type" where
  "Op_bigmap_types x rcv v =
     (case OpFields.bigmaps (flds rcv) (BigmapEvent.Id v) of
        Some typ \<Rightarrow> (Type_Left x typ, Type_Right x typ)
      | None \<Rightarrow> (Prim_BuildType x (BigmapEvent.Key v), micheline_Type_zero))"

text \<open>
  The \<open>alloc\<close>/\<open>copy\<close> branch. Its guard reads \<open>withPrim\<close> of the scratch record, as the
  source does.
\<close>

definition Op_bigmap_alloc_copy :: "ext \<Rightarrow> OpFields \<Rightarrow> BigmapEvent \<Rightarrow> BigmapUpdate \<Rightarrow> BigmapUpdate" where
  "Op_bigmap_alloc_copy x op v u =
     (let u1 = u\<lparr>BigmapUpdate.KeyType :=
                   Type_TypedefPtr x (MType (BigmapEvent.KeyType v)) ''@key'',
                 BigmapUpdate.ValueType :=
                   Type_TypedefPtr x (MType (BigmapEvent.ValueType v)) ''@value'',
                 BigmapUpdate.SourceId := BigmapEvent.SourceId v,
                 BigmapUpdate.DestId := BigmapEvent.DestId v\<rparr>
      in if OpFields.withPrim op then
           u1\<lparr>BigmapUpdate.KeyTypePrim := Some (BigmapEvent.KeyType v),
              BigmapUpdate.ValueTypePrim := Some (BigmapEvent.ValueType v)\<rparr>
         else u1)"

text \<open>
  The part of the \<open>update\<close>/\<open>remove\<close> branch that both actions share: key and hash,
  provenance metadata from the scratch record, key primitive.
\<close>

definition Op_bigmap_key_meta :: "ext \<Rightarrow> Op \<Rightarrow> OpFields \<Rightarrow> BigmapEvent \<Rightarrow> micheline_Type \<Rightarrow> BigmapValue" where
  "Op_bigmap_key_meta x rcv op v ktyp =
     (let bv1 = (if \<not> Prim_IsEmptyBigmap x (BigmapEvent.Key v) then
                   BigmapValue_zero
                     \<lparr>BigmapValue.Key :=
                        MultiKey_UnmarshalJSON x (Event_GetKey_MarshalJSON x v ktyp),
                      BigmapValue.Hash := BigmapEvent.KeyHash v\<rparr>
                 else BigmapValue_zero);
          bv2 = (if OpFields.withMeta (flds rcv) then
                   bv1\<lparr>BigmapValue.Meta :=
                         Some \<lparr>BigmapMeta.Contract = OpFields.Receiver op,
                               BigmapMeta.BigmapId = BigmapEvent.Id v,
                               BigmapMeta.UpdateTime = OpFields.Timestamp op,
                               BigmapMeta.UpdateHeight = OpFields.Height op\<rparr>\<rparr>
                 else bv1)
      in if OpFields.withPrim (flds rcv) then
           bv2\<lparr>BigmapValue.KeyPrim := Some (BigmapEvent.Key v)\<rparr>
         else bv2)"

definition Op_bigmap_update :: "ext \<Rightarrow> Op \<Rightarrow> OpFields \<Rightarrow> BigmapEvent \<Rightarrow> fault + BigmapUpdate" where
  "Op_bigmap_update x rcv op v =
     (case Op_bigmap_types x rcv v of
        (ktyp, vtyp) \<Rightarrow>
         (let u = BigmapUpdate_zero
                    \<lparr>BigmapUpdate.Action := BigmapEvent.Action v,
                     BigmapUpdate.BigmapId := BigmapEvent.Id v\<rparr>
          in if BigmapEvent.Action v = DiffActionAlloc \<or> BigmapEvent.Action v = DiffActionCopy
             then Inr (Op_bigmap_alloc_copy x op v u)
             else
               (let bv = Op_bigmap_key_meta x rcv op v ktyp
                in if BigmapEvent.Action v = DiffActionUpdate then
                     (let bv' = (if OpFields.withPrim (flds rcv) then
                                   bv\<lparr>BigmapValue.ValuePrim := Some (BigmapEvent.Value v)\<rparr>
                                 else bv)
                      in if Type_IsValid x vtyp then
                           (case Value_Map x vtyp (BigmapEvent.Value v)
                                   (OpFields.onError (flds rcv)) of
                              Inl e \<Rightarrow>
                               Inl (Error (DecodingBigmap (BigmapEvent.Id v)
                                             (BigmapEvent.KeyHash v) e))
                            | Inr m \<Rightarrow>
                               Inr (u\<lparr>BigmapUpdate.BigmapValue :=
                                        bv'\<lparr>BigmapValue.Value := m\<rparr>\<rparr>))
                         else Inr (u\<lparr>BigmapUpdate.BigmapValue := bv'\<rparr>))
                   else Inr (u\<lparr>BigmapUpdate.BigmapValue := bv\<rparr>))))"

text \<open>The inner loop \<open>for i, v := range bmd\<close>, which stops at the first error.\<close>

fun Op_bigmap_updates :: "ext \<Rightarrow> Op \<Rightarrow> OpFields \<Rightarrow> BigmapEvent list \<Rightarrow> fault + BigmapUpdate list" where
  "Op_bigmap_updates x rcv op [] = Inr []"
| "Op_bigmap_updates x rcv op (v # vs) =
     (case Op_bigmap_update x rcv op v of
        Inl e \<Rightarrow> Inl e
      | Inr u \<Rightarrow>
         (case Op_bigmap_updates x rcv op vs of
            Inl e \<Rightarrow> Inl e
          | Inr us \<Rightarrow> Inr (u # us)))"

definition Op_column_big_map_diff :: "ext \<Rightarrow> Op \<Rightarrow> jval \<Rightarrow> OpFields \<Rightarrow> fault + OpFields" where
  "Op_column_big_map_diff x rcv f op =
     (case assert_string f of
        Inl p \<Rightarrow> Inl p
      | Inr s \<Rightarrow>
         (case hex_DecodeString x s of
            Inl e \<Rightarrow> Inl (Error e)
          | Inr buf \<Rightarrow>
             if buf = [] then Inr op
             else
               (case BigmapEvents_UnmarshalBinary x buf of
                  Inl e \<Rightarrow> Inl (Error e)
                | Inr bmd \<Rightarrow>
                   assign (\<lambda>us. op\<lparr>OpFields.BigmapDiff := us\<rparr>)
                     (Op_bigmap_updates x rcv op bmd))))"

text \<open>The \<open>switch v\<close> of \<open>Op.UnmarshalJSONBrief\<close>, one branch per \<open>case\<close>, in source order.\<close>

definition Op_column :: "ext \<Rightarrow> Op \<Rightarrow> string \<Rightarrow> jval \<Rightarrow> OpFields \<Rightarrow> fault + OpFields" where
  "Op_column x rcv v f op =
    (if v = ''id'' then
       assign (\<lambda>n. op\<lparr>OpFields.Id := n\<rparr>)
         (parse_Number (strconv_ParseUint x) f)
     else if v = ''hash'' then
       assign (\<lambda>h. op\<lparr>OpFields.Hash := h\<rparr>)
         (parse_string (tezos_ParseOpHash x) f)
     else if v = ''type'' then
       assign (\<lambda>s. op\<lparr>OpFields.Type := ParseOpType x s\<rparr>) (assert_string f)
     else if v = ''block'' then
       assign (\<lambda>h. op\<lparr>OpFields.Block := h\<rparr>)
         (parse_string (tezos_ParseBlockHash x) f)
     else if v = ''time'' then
       assign (\<lambda>ts. op\<lparr>OpFields.Timestamp := TimeUnixUTC (ts * 1000000)\<rparr>)
         (parse_Number (strconv_ParseInt x) f)
     else if v = ''height'' then
       assign (\<lambda>n. op\<lparr>OpFields.Height := n\<rparr>)
         (parse_Number (strconv_ParseInt x) f)
     else if v = ''cycle'' then
       assign (\<lambda>n. op\<lparr>OpFields.Cycle := n\<rparr>)
         (parse_Number (strconv_ParseInt x) f)
     else if v = ''counter'' then
       assign (\<lambda>n. op\<lparr>OpFields.Counter := n\<rparr>)
         (parse_Number (strconv_ParseInt x) f)
     else if v = ''op_n'' then
       assign (\<lambda>n. op\<lparr>OpFields.OpN := n\<rparr>) (parse_Number (strconv_Atoi x) f)
     else if v = ''op_p'' then
       assign (\<lambda>n. op\<lparr>OpFields.OpP := n\<rparr>) (parse_Number (strconv_Atoi x) f)
     else if v = ''status'' then
       assign (\<lambda>s. op\<lparr>OpFields.Status := tezos_ParseOpStatus x s\<rparr>) (assert_string f)
     else if v = ''is_success'' then
       assign (\<lambda>b. op\<lparr>OpFields.IsSuccess := b\<rparr>)
         (parse_Number (strconv_ParseBool x) f)
     else if v = ''is_contract'' then
       assign (\<lambda>b. op\<lparr>OpFields.IsContract := b\<rparr>)
         (parse_Number (strconv_ParseBool x) f)
     else if v = ''is_batch'' then
       assign (\<lambda>b. op\<lparr>OpFields.IsBatch := b\<rparr>)
         (parse_Number (strconv_ParseBool x) f)
     else if v = ''is_event'' then
       assign (\<lambda>b. op\<lparr>OpFields.IsEvent := b\<rparr>)
         (parse_Number (strconv_ParseBool x) f)
     else if v = ''is_internal'' then
       assign (\<lambda>b. op\<lparr>OpFields.IsInternal := b\<rparr>)
         (parse_Number (strconv_ParseBool x) f)
     else if v = ''gas_limit'' then
       assign (\<lambda>n. op\<lparr>OpFields.GasLimit := n\<rparr>)
         (parse_Number (strconv_ParseInt x) f)
     else if v = ''gas_used'' then
       assign (\<lambda>n. op\<lparr>OpFields.GasUsed := n\<rparr>)
         (parse_Number (strconv_ParseInt x) f)
     else if v = ''storage_limit'' then
       assign (\<lambda>n. op\<lparr>OpFields.StorageLimit := n\<rparr>)
         (parse_Number (strconv_ParseInt x) f)
     else if v = ''storage_paid'' then
       assign (\<lambda>n. op\<lparr>OpFields.StoragePaid := n\<rparr>)
         (parse_Number (strconv_ParseInt x) f)
     else if v = ''volume'' then
       assign (\<lambda>r. op\<lparr>OpFields.Volume := r\<rparr>)
         (parse_Number (\<lambda>s. strconv_ParseFloat x s 64) f)
     else if v = ''fee'' then
       assign (\<lambda>r. op\<lparr>OpFields.Fee := r\<rparr>)
         (parse_Number (\<lambda>s. strconv_ParseFloat x s 64) f)
     else if v = ''reward'' then
       assign (\<lambda>r. op\<lparr>OpFields.Reward := r\<rparr>)
         (parse_Number (\<lambda>s. strconv_ParseFloat x s 64) f)
     else if v = ''deposit'' then
       assign (\<lambda>r. op\<lparr>OpFields.Deposit := r\<rparr>)
         (parse_Number (\<lambda>s. strconv_ParseFloat x s 64) f)
     else if v = ''burned'' then
       assign (\<lambda>r. op\<lparr>OpFields.Burned := r\<rparr>)
         (parse_Number (\<lambda>s. strconv_ParseFloat x s 64) f)
     else if v = ''days_destroyed'' then
       assign (\<lambda>r. op\<lparr>OpFields.TDD := r\<rparr>)
         (parse_Number (\<lambda>s. strconv_ParseFloat x s 64) f)
     else if v = ''sender_id'' then
       assign (\<lambda>n. op\<lparr>OpFields.SenderId := n\<rparr>)
         (parse_Number (strconv_ParseUint x) f)
     else if v = ''receiver_id'' then
       assign (\<lambda>n. op\<lparr>OpFields.ReceiverId := n\<rparr>)
         (parse_Number (strconv_ParseUint x) f)
     else if v = ''creator_id'' then
       assign (\<lambda>n. op\<lparr>OpFields.CreatorId := n\<rparr>)
         (parse_Number (strconv_ParseUint x) f)
     else if v = ''baker_id'' then
       assign (\<lambda>n. op\<lparr>OpFields.BakerId := n\<rparr>)
         (parse_Number (strconv_ParseUint x) f)
     else if v = ''sender'' then
       assign (\<lambda>a. op\<lparr>OpFields.Sender := a\<rparr>)
         (parse_string (tezos_ParseAddress x) f)
     else if v = ''receiver'' then
       assign (\<lambda>a. op\<lparr>OpFields.Receiver := a\<rparr>)
         (parse_string (tezos_ParseAddress x) f)
     else if v = ''creator'' then
       assign (\<lambda>a. op\<lparr>OpFields.Creator := a\<rparr>)
         (parse_string (tezos_ParseAddress x) f)
     else if v = ''baker'' then
       assign (\<lambda>a. op\<lparr>OpFields.Baker := a\<rparr>)
         (parse_string (tezos_ParseAddress x) f)
     else if v = ''data'' then
       assign (\<lambda>b. op\<lparr>OpFields.Data := b\<rparr>) (returned (json_Marshal x f))
     else if v = ''errors'' then
       assign (\<lambda>b. op\<lparr>OpFields.Errors := b\<rparr>) (returned (json_Marshal x f))
     else if v = ''entrypoint'' then
       Op_column_entrypoint f op
     else if v = ''parameters'' then
       Op_column_parameters x rcv f op
     else if v = ''storage'' then
       Op_column_storage x rcv f op
     else if v = ''big_map_diff'' then
       Op_column_big_map_diff x rcv f op
     else Inr op)"

text \<open>
  \<open>Op.UnmarshalJSONBrief\<close>. A method returns its error together with the receiver it
  leaves behind: the receiver is written once, by \<open>*o = op\<close> after the loop.
\<close>

definition Op_UnmarshalJSONBrief :: "ext \<Rightarrow> string \<Rightarrow> Op \<Rightarrow> fault option \<times> Op" where
  "Op_UnmarshalJSONBrief x data rcv =
     (case json_Decode x data of
        Inl e \<Rightarrow> (Some (Error e), rcv)
      | Inr unpacked \<Rightarrow>
         (case range_columns (Op_column x rcv) unpacked 0 (OpFields.columns (flds rcv))
                 OpFields_zero of
            Inl e \<Rightarrow> (Some e, rcv)
          | Inr op \<Rightarrow> (None, Op op [] [])))"

definition Op_UnmarshalJSON :: "ext \<Rightarrow> string \<Rightarrow> Op \<Rightarrow> fault option \<times> Op" where
  "Op_UnmarshalJSON x data rcv =
     (if length data = 0 \<or> data = ''null'' then (None, rcv)
      else if length data = 2 then (None, rcv)
      else if data ! 0 = CHR ''['' then Op_UnmarshalJSONBrief x data rcv
      else json_Unmarshal_Op x data rcv)"

subsection \<open>Blocks\<close>

text \<open>The \<open>switch v\<close> of \<open>Block.UnmarshalJSONBrief\<close>; \<open>block\<close> is the scratch record.\<close>

definition Block_column :: "ext \<Rightarrow> string \<Rightarrow> jval \<Rightarrow> Block \<Rightarrow> fault + Block" where
  "Block_column x v f block =
    (if v = ''row_id'' then
       assign (\<lambda>n. block\<lparr>Block.RowId := n\<rparr>)
         (parse_Number (strconv_ParseUint x) f)
     else if v = ''parent_id'' then
       assign (\<lambda>n. block\<lparr>Block.ParentId := n\<rparr>)
         (parse_Number (strconv_ParseUint x) f)
     else if v = ''hash'' then
       assign (\<lambda>h. block\<lparr>Block.Hash := h\<rparr>)
         (parse_string (tezos_ParseBlockHash x) f)
     else if v = ''predecessor'' then
       assign (\<lambda>h. block\<lparr>Block.ParentHash := Some h\<rparr>)
         (parse_string (tezos_ParseBlockHash x) f)
     else if v = ''is_orphan'' then
       assign (\<lambda>b. block\<lparr>Block.IsOrphan := b\<rparr>)
         (parse_Number (strconv_ParseBool x) f)
     else if v = ''height'' then
       assign (\<lambda>n. block\<lparr>Block.Height := n\<rparr>)
         (parse_Number (strconv_ParseInt x) f)
     else if v = ''cycle'' then
       assign (\<lambda>n. block\<lparr>Block.Cycle := n\<rparr>)
         (parse_Number (strconv_ParseInt x) f)
     else if v = ''is_cycle_snapshot'' then
       assign (\<lambda>b. block\<lparr>Block.IsCycleSnapshot := b\<rparr>)
         (parse_Number (strconv_ParseBool x) f)
     else if v = ''time'' then
       assign (\<lambda>ts. block\<lparr>Block.Timestamp := TimeUnixUTC (ts * 1000000)\<rparr>)
         (parse_Number (strconv_ParseInt x) f)
     else if v = ''solvetime'' then
       assign (\<lambda>n. block\<lparr>Block.Solvetime := n\<rparr>)
         (parse_Number (strconv_Atoi x) f)
     else if v = ''version'' then
       assign (\<lambda>n. block\<lparr>Block.Version := n\<rparr>)
         (parse_Number (strconv_Atoi x) f)
     else if v = ''validation_pass'' then
       assign (\<lambda>n. block\<lparr>Block.Validation := n\<rparr>)
         (parse_Number (strconv_Atoi x) f)
     else if v = ''fitness'' then
       assign (\<lambda>n. block\<lparr>Block.Fitness := n\<rparr>)
         (parse_Number (strconv_ParseUint x) f)
     else if v = ''priority'' then
       assign (\<lambda>n. block\<lparr>Block.Priority := n\<rparr>)
         (parse_Number (strconv_Atoi x) f)
     else if v = ''nonce'' then
       assign (\<lambda>s. block\<lparr>Block.Nonce := s\<rparr>) (assert_string f)
     else if v = ''voting_period_kind'' then
       assign (\<lambda>s. block\<lparr>Block.VotingPeriodKind := tezos_ParseVotingPeriod x s\<rparr>) (assert_string f)
     else if v = ''baker_id'' then
       assign (\<lambda>n. block\<lparr>Block.BakerId := n\<rparr>)
         (parse_Number (strconv_ParseUint x) f)
     else if v = ''slot_mask'' then
       assign (\<lambda>s. block\<lparr>Block.SlotMask := s\<rparr>) (assert_string f)
     else if v = ''n_endorsed_slots'' then
       assign (\<lambda>n. block\<lparr>Block.NSlotsEndorsed := n\<rparr>)
         (parse_Number (strconv_Atoi x) f)
     else if v = ''n_ops'' then
       assign (\<lambda>n. block\<lparr>Block.NOps := n\<rparr>) (parse_Number (strconv_Atoi x) f)
     else if v = ''n_ops_failed'' then
       assign (\<lambda>n. block\<lparr>Block.NOpsFailed := n\<rparr>)
         (parse_Number (strconv_Atoi x) f)
     else if v = ''n_ops_contract'' then
       assign (\<lambda>n. block\<lparr>Block.NOpsContract := n\<rparr>)
         (parse_Number (strconv_Atoi x) f)
     else if v = ''n_ops_implicit'' then
       assign (\<lambda>n. block\<lparr>Block.NOpsImplicit := n\<rparr>)
         (parse_Number (strconv_Atoi x) f)
     else if v = ''n_tx'' then
       assign (\<lambda>n. block\<lparr>Block.NTx := n\<rparr>) (parse_Number (strconv_Atoi x) f)
     else if v = ''n_activation'' then
       assign (\<lambda>n. block\<lparr>Block.NActivation := n\<rparr>)
         (parse_Number (strconv_Atoi x) f)
     else if v = ''n_seed_nonce_revelation'' then
       assign (\<lambda>n. block\<lparr>Block.NSeedNonce := n\<rparr>)
         (parse_Number (strconv_Atoi x) f)
     else if v = ''n_double_baking_evidence'' then
       assign (\<lambda>n. block\<lparr>Block.N2Baking := n\<rparr>)
         (parse_Number (strconv_Atoi x) f)
     else if v = ''n_double_endorsement_evidence'' then
       assign (\<lambda>n. block\<lparr>Block.N2Endorsement := n\<rparr>)
         (parse_Number (strconv_Atoi x) f)
     else if v = ''n_endorsement'' then
       assign (\<lambda>n. block\<lparr>Block.NEndorsement := n\<rparr>)
         (parse_Number (strconv_Atoi x) f)
     else if v = ''n_delegation'' then
       assign (\<lambda>n. block\<lparr>Block.NDelegation := n\<rparr>)
         (parse_Number (strconv_Atoi x) f)
     else if v = ''n_reveal'' then
       assign (\<lambda>n. block\<lparr>Block.NReveal := n\<rparr>)
         (parse_Number (strconv_Atoi x) f)
     else if v = ''n_origination'' then
       assign (\<lambda>n. block\<lparr>Block.NOrigination := n\<rparr>)
         (parse_Number (strconv_Atoi x) f)
     else if v = ''n_proposal'' then
       assign (\<lambda>n. block\<lparr>Block.NProposal := n\<rparr>)
         (parse_Number (strconv_Atoi x) f)
     else if v = ''n_ballot'' then
       assign (\<lambda>n. block\<lparr>Block.NBallot := n\<rparr>)
         (parse_Number (strconv_Atoi x) f)
     else if v = ''volume'' then
       assign (\<lambda>r. block\<lparr>Block.Volume := r\<rparr>)
         (parse_Number (\<lambda>s. strconv_ParseFloat x s 4) f)
     else if v = ''fee'' then
       assign (\<lambda>r. block\<lparr>Block.Fee := r\<rparr>)
         (parse_Number (\<lambda>s. strconv_ParseFloat x s 64) f)
     else if v = ''reward'' then
       assign (\<lambda>r. block\<lparr>Block.Reward := r\<rparr>)
         (parse_Number (\<lambda>s. strconv_ParseFloat x s 64) f)
     else if v = ''deposit'' then
       assign (\<lambda>r. block\<lparr>Block.Deposit := r\<rparr>)
         (parse_Number (\<lambda>s. strconv_ParseFloat x s 64) f)
     else if v = ''unfrozen_fees'' then
       assign (\<lambda>r. block\<lparr>Block.UnfrozenFees := r\<rparr>)
         (parse_Number (\<lambda>s. strconv_ParseFloat x s 64) f)
     else if v = ''unfrozen_rewards'' then
       assign (\<lambda>r. block\<lparr>Block.UnfrozenRewards := r\<rparr>)
         (parse_Number (\<lambda>s. strconv_ParseFloat x s 64) f)
     else if v = ''unfrozen_deposits'' then
       assign (\<lambda>r. block\<lparr>Block.UnfrozenDeposits := r\<rparr>)
         (parse_Number (\<lambda>s. strconv_ParseFloat x s 64) f)
     else if v = ''activated_supply'' then
       assign (\<lambda>r. block\<lparr>Block.ActivatedSupply := r\<rparr>)
         (parse_Number (\<lambda>s. strconv_ParseFloat x s 64) f)
     else if v = ''burned_supply'' then
       assign (\<lambda>r. block\<lparr>Block.BurnedSupply := r\<rparr>)
         (parse_Number (\<lambda>s. strconv_ParseFloat x s 64) f)
     else if v = ''n_accounts'' then
       assign (\<lambda>n. block\<lparr>Block.SeenAccounts := n\<rparr>)
         (parse_Number (strconv_Atoi x) f)
     else if v = ''n_new_accounts'' then
       assign (\<lambda>n. block\<lparr>Block.NewAccounts := n\<rparr>)
         (parse_Number (strconv_Atoi x) f)
     else if v = ''n_new_implicit'' then
       assign (\<lambda>n. block\<lparr>Block.NewImplicitAccounts := n\<rparr>)
         (parse_Number (strconv_Atoi x) f)
     else if v = ''n_new_managed'' then
       assign (\<lambda>n. block\<lparr>Block.NewManagedAccounts := n\<rparr>)
         (parse_Number (strconv_Atoi x) f)
     else if v = ''n_new_contracts'' then
       assign (\<lambda>n. block\<lparr>Block.NewContracts := n\<rparr>)
         (parse_Number (strconv_Atoi x) f)
     else if v = ''n_cleared_accounts'' then
       assign (\<lambda>n. block\<lparr>Block.ClearedAccounts := n\<rparr>)
         (parse_Number (strconv_Atoi x) f)
     else if v = ''n_funded_accounts'' then
       assign (\<lambda>n. block\<lparr>Block.FundedAccounts := n\<rparr>)
         (parse_Number (strconv_Atoi x) f)
     else if v = ''gas_limit'' then
       assign (\<lambda>n. block\<lparr>Block.GasLimit := n\<rparr>)
         (parse_Number (strconv_ParseInt x) f)
     else if v = ''gas_used'' then
       assign (\<lambda>n. block\<lparr>Block.GasUsed := n\<rparr>)
         (parse_Number (strconv_ParseInt x) f)
     else if v = ''gas_price'' then
       assign (\<lambda>r. block\<lparr>Block.GasPrice := r\<rparr>)
         (parse_Number (\<lambda>s. strconv_ParseFloat x s 64) f)
     else if v = ''storage_size'' then
       assign (\<lambda>n. block\<lparr>Block.StorageSize := n\<rparr>)
         (parse_Number (strconv_ParseInt x) f)
     else if v = ''days_destroyed'' then
       assign (\<lambda>r. block\<lparr>Block.TDD := r\<rparr>)
         (parse_Number (\<lambda>s. strconv_ParseFloat x s 64) f)
     else if v = ''pct_account_reuse'' then
       assign (\<lambda>r. block\<lparr>Block.PctAccountReuse := r\<rparr>)
         (parse_Number (\<lambda>s. strconv_ParseFloat x s 64) f)
     else if v = ''baker'' then
       assign (\<lambda>a. block\<lparr>Block.Baker := a\<rparr>)
         (parse_string (tezos_ParseAddress x) f)
     else if v = ''lb_esc_vote'' then
       assign (\<lambda>b. block\<lparr>Block.LbEscapeVote := b\<rparr>)
         (parse_Number (strconv_ParseBool x) f)
     else if v = ''lb_esc_ema'' then
       assign (\<lambda>n. block\<lparr>Block.LbEscapeEma := n\<rparr>)
         (parse_Number (strconv_ParseInt x) f)
     else Inr block)"

definition Block_UnmarshalJSONBrief :: "ext \<Rightarrow> string \<Rightarrow> Block \<Rightarrow> fault option \<times> Block" where
  "Block_UnmarshalJSONBrief x data rcv =
     (case json_Decode x data of
        Inl e \<Rightarrow> (Some (Error e), rcv)
      | Inr unpacked \<Rightarrow>
         (case range_columns (Block_column x) unpacked 0 (Block.columns rcv) Block_zero of
            Inl e \<Rightarrow> (Some e, rcv)
          | Inr block \<Rightarrow> (None, block)))"

definition Block_UnmarshalJSON :: "ext \<Rightarrow> string \<Rightarrow> Block \<Rightarrow> fault option \<times> Block" where
  "Block_UnmarshalJSON x data rcv =
     (if length data = 0 \<or> data = ''null'' then (None, rcv)
      else if length data = 2 then (None, rcv)
      else if data ! 0 = CHR ''['' then Block_UnmarshalJSONBrief x data rcv
      else json_Unmarshal_Block x data rcv)"

section \<open>Lists of rows and their cursors\<close>

text \<open>
  \<open>OpList\<close> and \<open>BlockList\<close>. The \<open>client\<close> that an \<open>OpList\<close> points to is shared state: the
  functions below take it beside the list and return it. The \<open>ctx\<close> field is the
  cancellation context of the resolver and part of the environment.
\<close>

record OpList =
  Rows :: "Op option list"
  withPrim :: bool
  columns :: "string list"

record BlockList =
  Rows :: "Block option list"
  columns :: "string list"

definition Op_Cursor :: "Op \<Rightarrow> fault + uint64" where
  "Op_Cursor rcv =
     (case (if length (Batch rcv) > 0 then Batch rcv ! (length (Batch rcv) - 1) else Some rcv) of
        None \<Rightarrow> Inl (Panic NilDereference)
      | Some op \<Rightarrow>
         (case (if length (Internal op) > 0 then Internal op ! (length (Internal op) - 1)
                else Some op) of
            None \<Rightarrow> Inl (Panic NilDereference)
          | Some op' \<Rightarrow> Inr (OpFields.Id (flds op'))))"

definition OpList_Cursor :: "OpList \<Rightarrow> fault + uint64" where
  "OpList_Cursor l =
     (if length (OpList.Rows l) = 0 then Inr 0
      else (case OpList.Rows l ! (length (OpList.Rows l) - 1) of
              None \<Rightarrow> Inl (Panic NilDereference)
            | Some row \<Rightarrow> Inr (OpFields.Id (flds row))))"

definition BlockList_Cursor :: "BlockList \<Rightarrow> fault + uint64" where
  "BlockList_Cursor l =
     (if length (BlockList.Rows l) = 0 then Inr 0
      else (case BlockList.Rows l ! (length (BlockList.Rows l) - 1) of
              None \<Rightarrow> Inl (Panic NilDereference)
            | Some row \<Rightarrow> Inr (Block.RowId row)))"

text \<open>
  The cursor of an operation list as the specification words it (sections 4.4 and 8):
  the sentinel 0 for an empty collection, else the identifier of the deepest last child
  of the last row: the last internal operation of the last batch item, else the last
  batch item, else the row itself. The specification says nothing of \<open>nil\<close> entries,
  where the result is \<open>None\<close>.
\<close>

definition spec_deepest_last_child :: "Op \<Rightarrow> Op option" where
  "spec_deepest_last_child row =
     (if Batch row = [] then Some row
      else (case last (Batch row) of
              None \<Rightarrow> None
            | Some item \<Rightarrow> if Internal item = [] then Some item else last (Internal item)))"

definition spec_OpList_Cursor :: "OpList \<Rightarrow> uint64 option" where
  "spec_OpList_Cursor l =
     (if OpList.Rows l = [] then Some 0
      else (case last (OpList.Rows l) of
              None \<Rightarrow> None
            | Some row \<Rightarrow> map_option (\<lambda>c. OpFields.Id (flds c)) (spec_deepest_last_child row)))"

subsection \<open>Decoding a list of operations\<close>

definition Op_with :: "(OpFields \<Rightarrow> OpFields) \<Rightarrow> Op \<Rightarrow> Op" where
  "Op_with upd rcv = Op (upd (flds rcv)) (Batch rcv) (Internal rcv)"

text \<open>\<open>Op.WithScript\<close>; \<open>s.Types()\<close> returns the four components of the script.\<close>

definition Op_WithScript :: "ContractScript option \<Rightarrow> Op \<Rightarrow> Op" where
  "Op_WithScript s rcv =
     (case s of
        Some sc \<Rightarrow>
         Op_with (\<lambda>r. r\<lparr>OpFields.param := script_param sc, OpFields.store := script_store sc,
                         OpFields.eps := script_eps sc,
                         OpFields.bigmaps := script_bigmaps sc\<rparr>) rcv
      | None \<Rightarrow>
         Op_with (\<lambda>r. r\<lparr>OpFields.param := micheline_Type_zero,
                         OpFields.store := micheline_Type_zero,
                         OpFields.eps := Map.empty, OpFields.bigmaps := Map.empty\<rparr>) rcv)"

text \<open>
  The part of the loop body of \<open>OpList.UnmarshalJSON\<close> that may load the contract script
  of the row's receiver.
\<close>

definition OpList_load_script ::
  "ext \<Rightarrow> OpList \<Rightarrow> string \<Rightarrow> Op \<Rightarrow> Client \<Rightarrow> (fault + Op) \<times> Client"
where
  "OpList_load_script x l v op c =
     (case getTableColumn x v (OpList.columns l) ''is_contract'' of
        (is, ok) \<Rightarrow>
         if ok \<and> is = ''1'' then
           (case getTableColumn x v (OpList.columns l) ''receiver'' of
              (recv, ok') \<Rightarrow>
               if ok' \<and> recv \<noteq> [] \<and> recv \<noteq> ''null'' then
                 (case tezos_ParseAddress x recv of
                    Inl err \<Rightarrow> (Inl (Error (InvalidReceiverAddress recv err)), c)
                  | Inr addr \<Rightarrow>
                     (case loadCachedContractScript x c addr of
                        (Inl err, c') \<Rightarrow> (Inl (Error err), c')
                      | (Inr script, c') \<Rightarrow> (Inr (Op_WithScript script op), c')))
               else (Inr op, c))
         else (Inr op, c))"

text \<open>One iteration of \<open>for _, v := range array\<close>: the operation to append, or the fault.\<close>

definition OpList_row :: "ext \<Rightarrow> OpList \<Rightarrow> string \<Rightarrow> Client \<Rightarrow> (fault + Op) \<times> Client" where
  "OpList_row x l v c =
     (case OpList_load_script x l v
             (Op (OpFields_zero\<lparr>OpFields.withPrim := OpList.withPrim l,
                                OpFields.columns := OpList.columns l\<rparr>) [] []) c of
        (Inl e, c') \<Rightarrow> (Inl e, c')
      | (Inr op, c') \<Rightarrow>
         (case Op_UnmarshalJSON x v op of
            (Some e, op') \<Rightarrow> (Inl e, c')
          | (None, op') \<Rightarrow> (Inr (Op_with (\<lambda>r. r\<lparr>OpFields.columns := []\<rparr>) op'), c')))"

fun OpList_range_array ::
  "ext \<Rightarrow> string list \<Rightarrow> OpList \<times> Client \<Rightarrow> fault option \<times> OpList \<times> Client"
where
  "OpList_range_array x [] (l, c) = (None, l, c)"
| "OpList_range_array x (v # vs) (l, c) =
     (case OpList_row x l v c of
        (Inl e, c') \<Rightarrow> (Some e, l, c')
      | (Inr op, c') \<Rightarrow>
         OpList_range_array x vs (l\<lparr>OpList.Rows := OpList.Rows l @ [Some op]\<rparr>, c'))"

definition OpList_UnmarshalJSON ::
  "ext \<Rightarrow> string \<Rightarrow> OpList \<times> Client \<Rightarrow> fault option \<times> OpList \<times> Client"
where
  "OpList_UnmarshalJSON x data lc =
     (if length data = 0 \<or> data = ''null'' then (None, lc)
      else if data ! 0 \<noteq> CHR ''['' then (Some (Error (ExpectedJSONArray ''OpList'')), lc)
      else (case json_Unmarshal_RawMessages x data of
              Inl e \<Rightarrow> (Some (Error e), lc)
            | Inr array \<Rightarrow> OpList_range_array x array lc))"

subsection \<open>Decoding a list of blocks\<close>

definition BlockList_row :: "ext \<Rightarrow> BlockList \<Rightarrow> string \<Rightarrow> fault + Block" where
  "BlockList_row x l v =
     (case Block_UnmarshalJSON x v (Block_zero\<lparr>Block.columns := BlockList.columns l\<rparr>) of
        (Some e, r) \<Rightarrow> Inl e
      | (None, r) \<Rightarrow> Inr (r\<lparr>Block.columns := []\<rparr>))"

fun BlockList_range_array :: "ext \<Rightarrow> string list \<Rightarrow> BlockList \<Rightarrow> fault option \<times> BlockList" where
  "BlockList_range_array x [] l = (None, l)"
| "BlockList_range_array x (v # vs) l =
     (case BlockList_row x l v of
        Inl e \<Rightarrow> (Some e, l)
      | Inr r \<Rightarrow>
         BlockList_range_array x vs (l\<lparr>BlockList.Rows := BlockList.Rows l @ [Some r]\<rparr>))"

definition BlockList_UnmarshalJSON :: "ext \<Rightarrow> string \<Rightarrow> BlockList \<Rightarrow> fault option \<times> BlockList" where
  "BlockList_UnmarshalJSON x data l =
     (if length data = 0 \<or> data = ''null'' then (None, l)
      else if data ! 0 \<noteq> CHR ''['' then (Some (Error (ExpectedJSONArray ''BlockList'')), l)
      else (case json_Unmarshal_RawMessages x data of
              Inl e \<Rightarrow> (Some (Error e), l)
            | Inr array \<Rightarrow> BlockList_range_array x array l))"

section \<open>Columns by the dynamic type their case asserts\<close>

text \<open>
  The columns of \<open>Op.UnmarshalJSONBrief\<close> whose case reads \<open>f.(json.Number)\<close>, and those
  whose case reads \<open>f.(string)\<close>. The two remaining columns, \<open>data\<close> and \<open>errors\<close>, pass
  \<open>f\<close> to \<open>json.Marshal\<close> whatever its type.
\<close>

definition Op_Number_columns :: "string list" where
  "Op_Number_columns =
     [''id'', ''time'', ''height'', ''cycle'', ''counter'', ''op_n'', ''op_p'',
      ''is_success'', ''is_contract'', ''is_batch'', ''is_event'', ''is_internal'',
      ''gas_limit'', ''gas_used'', ''storage_limit'', ''storage_paid'', ''volume'',
      ''fee'', ''reward'', ''deposit'', ''burned'', ''days_destroyed'', ''sender_id'',
      ''receiver_id'', ''creator_id'', ''baker_id'']"

definition Op_string_columns :: "string list" where
  "Op_string_columns =
     [''hash'', ''type'', ''block'', ''status'', ''sender'', ''receiver'', ''creator'',
      ''baker'', ''entrypoint'', ''parameters'', ''storage'', ''big_map_diff'']"

text \<open>The same two lists for \<open>Block.UnmarshalJSONBrief\<close>, which has no other case.\<close>

definition Block_Number_columns :: "string list" where
  "Block_Number_columns =
     [''row_id'', ''parent_id'', ''is_orphan'', ''height'', ''cycle'',
      ''is_cycle_snapshot'', ''time'', ''solvetime'', ''version'', ''validation_pass'',
      ''fitness'', ''priority'', ''baker_id'', ''n_endorsed_slots'', ''n_ops'',
      ''n_ops_failed'', ''n_ops_contract'', ''n_ops_implicit'', ''n_tx'',
      ''n_activation'', ''n_seed_nonce_revelation'', ''n_double_baking_evidence'',
      ''n_double_endorsement_evidence'', ''n_endorsement'', ''n_delegation'',
      ''n_reveal'', ''n_origination'', ''n_proposal'', ''n_ballot'', ''volume'', ''fee'',
      ''reward'', ''deposit'', ''unfrozen_fees'', ''unfrozen_rewards'',
      ''unfrozen_deposits'', ''activated_supply'', ''burned_supply'', ''n_accounts'',
      ''n_new_accounts'', ''n_new_implicit'', ''n_new_managed'', ''n_new_contracts'',
      ''n_cleared_accounts'', ''n_funded_accounts'', ''gas_limit'', ''gas_used'',
      ''gas_price'', ''storage_size'', ''days_destroyed'', ''pct_account_reuse'',
      ''lb_esc_vote'', ''lb_esc_ema'']"

definition Block_string_columns :: "string list" where
  "Block_string_columns =
     [''hash'', ''predecessor'', ''nonce'', ''voting_period_kind'', ''slot_mask'',
      ''baker'']"

section \<open>An environment for the examples\<close>

text \<open>
  The theorems below hold for every environment. Their examples need one: \<open>example_ext\<close>
  fixes the results of the collaborators on the few inputs the examples use, as finite
  tables, and answers every other input with an error. The rows that \<open>getTableColumn\<close>
  is asked about hold the columns \<open>is_contract\<close> and \<open>receiver\<close> in the second and third
  of four positions, where the text of the value is the text between the commas, without
  the quotes of a string. Its contract resolver knows no contract: every lookup returns
  the error \<open>NotFound\<close>. In \<open>example_ext_nil_script\<close> every lookup returns no script and no
  error instead.
\<close>

definition example_events :: "BigmapEvent list" where
  "example_events =
     [\<lparr>BigmapEvent.Action = DiffActionUpdate, BigmapEvent.Id = 5,
       BigmapEvent.KeyHash = TzHash ''h1'', BigmapEvent.Key = MPrim ''k1'',
       BigmapEvent.Value = MPrim ''v1'', BigmapEvent.KeyType = micheline_Prim_zero,
       BigmapEvent.ValueType = micheline_Prim_zero, BigmapEvent.SourceId = 0,
       BigmapEvent.DestId = 0\<rparr>,
      \<lparr>BigmapEvent.Action = DiffActionRemove, BigmapEvent.Id = 5,
       BigmapEvent.KeyHash = TzHash ''h2'', BigmapEvent.Key = MPrim ''k2'',
       BigmapEvent.Value = MPrim ''v2'', BigmapEvent.KeyType = micheline_Prim_zero,
       BigmapEvent.ValueType = micheline_Prim_zero, BigmapEvent.SourceId = 0,
       BigmapEvent.DestId = 0\<rparr>,
      \<lparr>BigmapEvent.Action = DiffActionAlloc, BigmapEvent.Id = 6,
       BigmapEvent.KeyHash = tezos_Hash_zero, BigmapEvent.Key = micheline_Prim_zero,
       BigmapEvent.Value = micheline_Prim_zero, BigmapEvent.KeyType = MPrim ''kt'',
       BigmapEvent.ValueType = MPrim ''vt'', BigmapEvent.SourceId = 0,
       BigmapEvent.DestId = 0\<rparr>]"

definition example_json :: "(string \<times> jval list) list" where
  \<open>example_json =
     [(''[true]'', [JBool True]),
      (''[null]'', [JNull]),
      (''[7]'', [JNumber ''7'']),
      (''[8]'', [JNumber ''8'']),
      (''[1.5]'', [JNumber ''1.5'']),
      (''["00","KT1Puc9St8wdNoGtLiD2WXaHbWU7styaxYhD",3]'',
         [JString ''00'', JString ''KT1Puc9St8wdNoGtLiD2WXaHbWU7styaxYhD'', JNumber ''3'']),
      (''[7,1,"KT1Puc9St8wdNoGtLiD2WXaHbWU7styaxYhD",3]'',
         [JNumber ''7'', JNumber ''1'', JString ''KT1Puc9St8wdNoGtLiD2WXaHbWU7styaxYhD'', JNumber ''3'']),
      (''[8,1,"KT1Puc9St8wdNoGtLiD2WXaHbWU7styaxYhD",3]'',
         [JNumber ''8'', JNumber ''1'', JString ''KT1Puc9St8wdNoGtLiD2WXaHbWU7styaxYhD'', JNumber ''3''])]\<close>

definition example_arrays :: "(string \<times> string list) list" where
  \<open>example_arrays =
     [(''[[7],[8]]'', [''[7]'', ''[8]'']),
      (''[[7,1,"KT1Puc9St8wdNoGtLiD2WXaHbWU7styaxYhD",3],[8,1,"KT1Puc9St8wdNoGtLiD2WXaHbWU7styaxYhD",3]]'',
         [''[7,1,"KT1Puc9St8wdNoGtLiD2WXaHbWU7styaxYhD",3]'', ''[8,1,"KT1Puc9St8wdNoGtLiD2WXaHbWU7styaxYhD",3]''])]\<close>

definition example_numbers :: "(string \<times> 64 word) list" where
  "example_numbers = [(''1'', 1), (''3'', 3), (''7'', 7), (''8'', 8)]"

definition example_bools :: "(string \<times> bool) list" where
  "example_bools =
     [(''1'', True), (''t'', True), (''T'', True), (''TRUE'', True), (''true'', True),
      (''True'', True), (''0'', False), (''f'', False), (''F'', False), (''FALSE'', False),
      (''false'', False), (''False'', False)]"

definition example_table_columns :: "((string \<times> string list \<times> string) \<times> string) list" where
  \<open>example_table_columns =
     [((''[7,1,"KT1Puc9St8wdNoGtLiD2WXaHbWU7styaxYhD",3]'',
        [''id'', ''is_contract'', ''receiver'', ''height''], ''is_contract''), ''1''),
      ((''[7,1,"KT1Puc9St8wdNoGtLiD2WXaHbWU7styaxYhD",3]'',
        [''id'', ''is_contract'', ''receiver'', ''height''], ''receiver''),
         ''KT1Puc9St8wdNoGtLiD2WXaHbWU7styaxYhD''),
      ((''[8,1,"KT1Puc9St8wdNoGtLiD2WXaHbWU7styaxYhD",3]'',
        [''id'', ''is_contract'', ''receiver'', ''height''], ''is_contract''), ''1''),
      ((''[8,1,"KT1Puc9St8wdNoGtLiD2WXaHbWU7styaxYhD",3]'',
        [''id'', ''is_contract'', ''receiver'', ''height''], ''receiver''),
         ''KT1Puc9St8wdNoGtLiD2WXaHbWU7styaxYhD'')]\<close>

definition example_lookup :: "('k \<times> 'v) list \<Rightarrow> ('k \<Rightarrow> error) \<Rightarrow> 'k \<Rightarrow> error + 'v" where
  "example_lookup table err k = (case map_of table k of None \<Rightarrow> Inl (err k) | Some v \<Rightarrow> Inr v)"

definition example_ext :: ext where
  "example_ext =
     \<lparr>json_Decode = example_lookup example_json JSONSyntaxError,
      json_Unmarshal_RawMessages = example_lookup example_arrays JSONSyntaxError,
      json_Unmarshal_Op = (\<lambda>d rcv. (Some (Error (JSONSyntaxError d)), rcv)),
      json_Unmarshal_Block = (\<lambda>d rcv. (Some (Error (JSONSyntaxError d)), rcv)),
      json_Marshal = (\<lambda>f. Inl (JSONSyntaxError [])),
      strconv_ParseUint = example_lookup example_numbers MalformedField,
      strconv_ParseInt = example_lookup example_numbers MalformedField,
      strconv_Atoi = example_lookup example_numbers MalformedField,
      strconv_ParseBool = example_lookup example_bools MalformedField,
      strconv_ParseFloat = (\<lambda>s bits. Inl (MalformedField s)),
      hex_DecodeString = example_lookup [(''00'', [CHR 0x00])] InvalidEncoding,
      tezos_ParseOpHash = (\<lambda>s. Inl (InvalidEncoding s)),
      tezos_ParseBlockHash = (\<lambda>s. Inl (InvalidEncoding s)),
      tezos_ParseAddress =
        example_lookup
          [(''KT1Puc9St8wdNoGtLiD2WXaHbWU7styaxYhD'',
            TzAddress ''KT1Puc9St8wdNoGtLiD2WXaHbWU7styaxYhD'')]
          InvalidEncoding,
      tezos_ParseOpStatus = (\<lambda>s. 0),
      tezos_ParseVotingPeriod = (\<lambda>s. 0),
      ParseOpType = (\<lambda>s. 0),
      Parameters_UnmarshalBinary = (\<lambda>b. Inl (BinaryDecodeError b)),
      Parameters_MapEntrypoint =
        (\<lambda>p t. (MEntrypoint (micheline_Parameters.Entrypoint p), micheline_Parameters.Value p)),
      Entrypoint_Type = (\<lambda>e. micheline_Type_zero),
      Value_Map = (\<lambda>t p r. case p of MPrim b \<Rightarrow> Inr (JString b)),
      Prim_UnmarshalBinary = (\<lambda>b. Inl (BinaryDecodeError b)),
      Type_IsValid = (\<lambda>t. t \<noteq> micheline_Type_zero),
      Type_Left = (\<lambda>t. t),
      Type_Right = (\<lambda>t. t),
      Type_TypedefPtr = (\<lambda>t n. Some (MTypedef n)),
      Prim_BuildType = MType,
      Prim_IsEmptyBigmap = (\<lambda>p. p = micheline_Prim_zero),
      BigmapEvents_UnmarshalBinary =
        example_lookup [([CHR 0x00], example_events)] BinaryDecodeError,
      Event_GetKey_MarshalJSON = (\<lambda>v t. case BigmapEvent.Key v of MPrim b \<Rightarrow> b),
      MultiKey_UnmarshalJSON = MultiKey,
      getTableColumn =
        (\<lambda>d cols n. case map_of example_table_columns (d, cols, n) of
                        None \<Rightarrow> ([], False)
                      | Some t \<Rightarrow> (t, True)),
      loadCachedContractScript = (\<lambda>c a. (Inl NotFound, c))\<rparr>"

definition example_ext_nil_script :: ext where
  "example_ext_nil_script = example_ext\<lparr>loadCachedContractScript := (\<lambda>c a. (Inr None, c))\<rparr>"

text \<open>A receiver whose script has a valid type for big-map 5 and which asks for metadata.\<close>

definition example_receiver :: "string list \<Rightarrow> Op" where
  "example_receiver cols =
     Op (OpFields_zero
           \<lparr>OpFields.columns := cols,
            OpFields.bigmaps := [5 \<mapsto> MType (MPrim ''big_map'')],
            OpFields.withMeta := True\<rparr>) [] []"

section \<open>Faults of a column\<close>

text \<open>
  What a \<open>case\<close> of either \<open>switch\<close> can end in, other than a new scratch record: a failed
  type assertion, or an error that a parser returned.
\<close>

definition column_fault :: "fault \<Rightarrow> bool" where
  "column_fault e = (e = Panic TypeAssertion \<or> (\<exists>er. e = Error er))"

section \<open>The value type of a big-map event\<close>

text \<open>
  The source decodes the value of an \<open>update\<close> event when \<open>vtyp.IsValid()\<close>, where \<open>vtyp\<close> is
  the value type that \<open>Op_bigmap_types\<close> finds: the right component of the entry of the
  receiver's \<open>bigmaps\<close> table, or the zero type when the table has no entry. This is what
  it means for the value type to be resolved.
\<close>

definition value_type_resolved :: "ext \<Rightarrow> Op \<Rightarrow> BigmapEvent \<Rightarrow> bool" where
  "value_type_resolved x rcv v = Type_IsValid x (snd (Op_bigmap_types x rcv v))"

section \<open>The loop over the columns\<close>

text \<open>
  The loop over a column list that is split in two runs the first part, then the second
  from the index and the scratch record the first part left.
\<close>

lemma range_columns_append:
  "range_columns step u i (pre @ post) s =
     (case range_columns step u i pre s of
        Inl e \<Rightarrow> Inl e
      | Inr s' \<Rightarrow> range_columns step u (i + length pre) post s')"
  by (induction pre arbitrary: i s) (auto split: sum.splits)

lemma range_columns_no_index_panic:
  assumes "\<And>v f s e. step v f s = Inl e \<Longrightarrow> e \<noteq> Panic IndexOutOfRange"
  shows "i + length cols \<le> length u \<Longrightarrow> range_columns step u i cols s \<noteq> Inl (Panic IndexOutOfRange)"
proof (induction cols arbitrary: i s)
  case Nil
  then show ?case by simp
next
  case (Cons v vs)
  have "Suc i + length vs \<le> length u" using Cons.prems by simp
  then have ih: "\<And>s'. range_columns step u (Suc i) vs s' \<noteq> Inl (Panic IndexOutOfRange)"
    using Cons.IH by blast
  have "i < length u" using Cons.prems by simp
  then show ?case using ih assms by (auto split: sum.splits)
qed

lemma range_columns_short_fails:
  "length u < i + length cols \<Longrightarrow> i \<le> length u \<Longrightarrow> range_columns step u i cols s \<noteq> Inr s'"
proof (induction cols arbitrary: i s)
  case Nil
  then show ?case by simp
next
  case (Cons v vs)
  show ?case
  proof (cases "length u \<le> i")
    case True
    then show ?thesis by simp
  next
    case False
    have "length u < Suc i + length vs" using Cons.prems by simp
    moreover have "Suc i \<le> length u" using False by simp
    ultimately have "\<And>t. range_columns step u (Suc i) vs t \<noteq> Inr s'" using Cons.IH by blast
    then show ?thesis using False by (auto split: sum.splits)
  qed
qed

lemma range_columns_short_panics:
  assumes "length u < length cols"
    and "range_columns step u 0 (take (length u) cols) s = Inr s'"
  shows "range_columns step u 0 cols s = Inl (Panic IndexOutOfRange)"
proof -
  obtain v vs where d: "drop (length u) cols = v # vs"
    using assms(1) by (cases "drop (length u) cols") auto
  have len: "length (take (length u) cols) = length u" using assms(1) by simp
  have "range_columns step u 0 cols s =
          range_columns step u 0 (take (length u) cols @ drop (length u) cols) s"
    by simp
  also have "\<dots> = range_columns step u (length u) (v # vs) s'"
    using assms(2) len by (simp only: range_columns_append d) simp
  also have "\<dots> = Inl (Panic IndexOutOfRange)" by simp
  finally show ?thesis .
qed



lemma range_columns_frame:
  assumes "\<And>v f s s'. v \<in> set cols \<Longrightarrow> step v f s = Inr s' \<Longrightarrow> P s' = P s"
  shows "range_columns step u i cols s = Inr s' \<Longrightarrow> P s' = P s"
  using assms
proof (induction cols arbitrary: i s)
  case Nil
  then show ?case by simp
next
  case (Cons v vs)
  have rest: "\<And>j t. range_columns step u j vs t = Inr s' \<Longrightarrow> P s' = P t"
    using Cons.IH Cons.prems(2) by (metis list.set_intros(2))
  show ?case
  proof (cases "length u \<le> i")
    case True
    then show ?thesis using Cons.prems(1) by simp
  next
    case False
    show ?thesis
    proof (cases "u ! i = JNull")
      case True
      then show ?thesis using Cons.prems(1) False rest by simp
    next
      case nn: False
      obtain t where t: "step v (u ! i) s = Inr t"
        using Cons.prems(1) False nn by (cases "step v (u ! i) s") auto
      have "range_columns step u (Suc i) vs t = Inr s'"
        using Cons.prems(1) False nn t by simp
      then have "P s' = P t" using rest by blast
      moreover have "P t = P s" using Cons.prems(2) [of v "u ! i" s t] t by simp
      ultimately show ?thesis by simp
    qed
  qed
qed

section \<open>The faults of the two switches\<close>

lemma assign_eq_Inl: "(assign upd r = Inl e) = (r = Inl e)"
  by (simp add: assign_def split: sum.splits)

lemma assign_eq_Inr: "(assign upd r = Inr y) = (\<exists>a. r = Inr a \<and> y = upd a)"
  by (auto simp add: assign_def split: sum.splits)

lemma returned_eq_Inl: "(returned r = Inl e) = (\<exists>er. r = Inl er \<and> e = Error er)"
  by (auto simp add: returned_def split: sum.splits)

lemma assert_Number_eq_Inl: "(assert_Number f = Inl e) = ((\<forall>t. f \<noteq> JNumber t) \<and> e = Panic TypeAssertion)"
  by (cases f) (auto simp add: assert_Number_def)

lemma assert_string_eq_Inl: "(assert_string f = Inl e) = ((\<forall>t. f \<noteq> JString t) \<and> e = Panic TypeAssertion)"
  by (cases f) (auto simp add: assert_string_def)

lemma parse_Number_eq_Inl:
  "(parse_Number p f = Inl e) =
     (((\<forall>t. f \<noteq> JNumber t) \<and> e = Panic TypeAssertion) \<or> (\<exists>t er. f = JNumber t \<and> p t = Inl er \<and> e = Error er))"
  by (cases f) (auto simp add: parse_Number_def assert_Number_def returned_eq_Inl)

lemma parse_string_eq_Inl:
  "(parse_string p f = Inl e) =
     (((\<forall>t. f \<noteq> JString t) \<and> e = Panic TypeAssertion) \<or> (\<exists>t er. f = JString t \<and> p t = Inl er \<and> e = Error er))"
  by (cases f) (auto simp add: parse_string_def assert_string_def returned_eq_Inl)

lemmas eq_Inl = assign_eq_Inl returned_eq_Inl assert_Number_eq_Inl assert_string_eq_Inl parse_Number_eq_Inl parse_string_eq_Inl

lemma Op_column_entrypoint_Inl:
  "Op_column_entrypoint f op = Inl e \<Longrightarrow> column_fault e"
  by (auto simp: Op_column_entrypoint_def eq_Inl column_fault_def)

lemma Op_column_parameters_Inl:
  "Op_column_parameters x rcv f op = Inl e \<Longrightarrow> column_fault e"
  by (auto simp: Op_column_parameters_def eq_Inl column_fault_def split: sum.splits if_splits prod.splits)

lemma Op_column_storage_Inl:
  "Op_column_storage x rcv f op = Inl e \<Longrightarrow> column_fault e"
  by (auto simp: Op_column_storage_def eq_Inl Let_def column_fault_def split: sum.splits if_splits prod.splits)

lemma Op_bigmap_update_Inl:
  "Op_bigmap_update x rcv op v = Inl e \<Longrightarrow> column_fault e"
  by (auto simp: Op_bigmap_update_def Let_def column_fault_def split: sum.splits if_splits prod.splits)

lemma Op_bigmap_updates_Inl:
  "Op_bigmap_updates x rcv op vs = Inl e \<Longrightarrow> column_fault e"
  by (induction vs arbitrary: e) (auto split: sum.splits dest: Op_bigmap_update_Inl)

lemma Op_column_big_map_diff_Inl:
  "Op_column_big_map_diff x rcv f op = Inl e \<Longrightarrow> column_fault e"
  by (auto simp: Op_column_big_map_diff_def eq_Inl column_fault_def split: sum.splits if_splits
      dest: Op_bigmap_updates_Inl)

lemma Op_column_Inl:
  "Op_column x rcv v f op = Inl e \<Longrightarrow> column_fault e"
  unfolding Op_column_def
  by (auto simp: eq_Inl column_fault_def split: if_splits
      dest: Op_column_entrypoint_Inl Op_column_parameters_Inl Op_column_storage_Inl Op_column_big_map_diff_Inl)

lemma Block_column_Inl:
  "Block_column x v f op = Inl e \<Longrightarrow> column_fault e"
  unfolding Block_column_def
  by (auto simp: eq_Inl column_fault_def split: if_splits)

lemma column_fault_not_index: "column_fault e \<Longrightarrow> e \<noteq> Panic IndexOutOfRange"
  by (auto simp: column_fault_def)

section \<open>Values of the wrong dynamic type\<close>

lemma assign_Inl: "assign upd (Inl e) = Inl e"
  by (simp add: assign_def)

lemma parse_Number_wrong_kind: "\<forall>t. f \<noteq> JNumber t \<Longrightarrow> parse_Number p f = Inl (Panic TypeAssertion)"
  by (cases f) (auto simp: parse_Number_def assert_Number_def)

lemma parse_string_wrong_kind: "\<forall>t. f \<noteq> JString t \<Longrightarrow> parse_string p f = Inl (Panic TypeAssertion)"
  by (cases f) (auto simp: parse_string_def assert_string_def)

lemma assert_string_wrong_kind: "\<forall>t. f \<noteq> JString t \<Longrightarrow> assert_string f = Inl (Panic TypeAssertion)"
  by (cases f) (auto simp: assert_string_def)

lemmas wrong_kind = assign_Inl parse_Number_wrong_kind parse_string_wrong_kind assert_string_wrong_kind

lemma Op_column_Number_wrong_kind:
  "v \<in> set Op_Number_columns \<Longrightarrow> \<forall>t. f \<noteq> JNumber t \<Longrightarrow>
     Op_column x rcv v f op = Inl (Panic TypeAssertion)"
  unfolding Op_Number_columns_def
  apply (simp only: list.set insert_iff empty_iff)
  apply (elim disjE FalseE)
  apply (hypsubst, simp add: Op_column_def wrong_kind)+
  done

lemma Op_column_string_wrong_kind:
  "v \<in> set Op_string_columns \<Longrightarrow> \<forall>t. f \<noteq> JString t \<Longrightarrow>
     Op_column x rcv v f op = Inl (Panic TypeAssertion)"
  unfolding Op_string_columns_def
  apply (simp only: list.set insert_iff empty_iff)
  apply (elim disjE FalseE)
  apply (hypsubst, simp add: Op_column_def wrong_kind Op_column_entrypoint_def
      Op_column_parameters_def Op_column_storage_def Op_column_big_map_diff_def)+
  done

lemma Block_column_Number_wrong_kind:
  "v \<in> set Block_Number_columns \<Longrightarrow> \<forall>t. f \<noteq> JNumber t \<Longrightarrow>
     Block_column x v f block = Inl (Panic TypeAssertion)"
  unfolding Block_Number_columns_def
  apply (simp only: list.set insert_iff empty_iff)
  apply (elim disjE FalseE)
  apply (hypsubst, simp add: Block_column_def wrong_kind)+
  done

lemma Block_column_string_wrong_kind:
  "v \<in> set Block_string_columns \<Longrightarrow> \<forall>t. f \<noteq> JString t \<Longrightarrow>
     Block_column x v f block = Inl (Panic TypeAssertion)"
  unfolding Block_string_columns_def
  apply (simp only: list.set insert_iff empty_iff)
  apply (elim disjE FalseE)
  apply (hypsubst, simp add: Block_column_def wrong_kind)+
  done

section \<open>What a column leaves alone\<close>

text \<open>
  Each case of the operation switch writes the fields of its own column: the receiver
  address, the timestamp, the height and the big-map updates of the scratch record
  change only in the cases \<open>receiver\<close>, \<open>time\<close>, \<open>height\<close> and \<open>big_map_diff\<close>.
\<close>

lemma Op_column_entrypoint_frame:
  "Op_column_entrypoint f op = Inr op' \<Longrightarrow>
     OpFields.Receiver op' = OpFields.Receiver op \<and> OpFields.Timestamp op' = OpFields.Timestamp op
     \<and> OpFields.Height op' = OpFields.Height op \<and> OpFields.BigmapDiff op' = OpFields.BigmapDiff op"
  by (auto simp: Op_column_entrypoint_def assign_eq_Inr)

lemma Op_column_parameters_frame:
  "Op_column_parameters x rcv f op = Inr op' \<Longrightarrow>
     OpFields.Receiver op' = OpFields.Receiver op \<and> OpFields.Timestamp op' = OpFields.Timestamp op
     \<and> OpFields.Height op' = OpFields.Height op \<and> OpFields.BigmapDiff op' = OpFields.BigmapDiff op"
  by (auto simp: Op_column_parameters_def split: sum.splits if_splits prod.splits)

lemma Op_column_storage_frame:
  "Op_column_storage x rcv f op = Inr op' \<Longrightarrow>
     OpFields.Receiver op' = OpFields.Receiver op \<and> OpFields.Timestamp op' = OpFields.Timestamp op
     \<and> OpFields.Height op' = OpFields.Height op \<and> OpFields.BigmapDiff op' = OpFields.BigmapDiff op"
  by (auto simp: Op_column_storage_def Let_def split: sum.splits if_splits prod.splits)

lemma Op_column_big_map_diff_frame:
  "Op_column_big_map_diff x rcv f op = Inr op' \<Longrightarrow>
     OpFields.Receiver op' = OpFields.Receiver op \<and> OpFields.Timestamp op' = OpFields.Timestamp op
     \<and> OpFields.Height op' = OpFields.Height op"
  by (auto simp: Op_column_big_map_diff_def assign_eq_Inr split: sum.splits if_splits)

lemma Op_column_frame_Receiver:
  "Op_column x rcv v f op = Inr op' \<Longrightarrow> v \<noteq> ''receiver'' \<Longrightarrow>
     OpFields.Receiver op' = OpFields.Receiver op"
  unfolding Op_column_def
  by (auto simp: assign_eq_Inr split: if_splits
      dest: Op_column_entrypoint_frame Op_column_parameters_frame Op_column_storage_frame
        Op_column_big_map_diff_frame)

lemma Op_column_frame_Timestamp:
  "Op_column x rcv v f op = Inr op' \<Longrightarrow> v \<noteq> ''time'' \<Longrightarrow>
     OpFields.Timestamp op' = OpFields.Timestamp op"
  unfolding Op_column_def
  by (auto simp: assign_eq_Inr split: if_splits
      dest: Op_column_entrypoint_frame Op_column_parameters_frame Op_column_storage_frame
        Op_column_big_map_diff_frame)

lemma Op_column_frame_Height:
  "Op_column x rcv v f op = Inr op' \<Longrightarrow> v \<noteq> ''height'' \<Longrightarrow>
     OpFields.Height op' = OpFields.Height op"
  unfolding Op_column_def
  by (auto simp: assign_eq_Inr split: if_splits
      dest: Op_column_entrypoint_frame Op_column_parameters_frame Op_column_storage_frame
        Op_column_big_map_diff_frame)

lemma Op_column_frame_BigmapDiff:
  "Op_column x rcv v f op = Inr op' \<Longrightarrow> v \<noteq> ''big_map_diff'' \<Longrightarrow>
     OpFields.BigmapDiff op' = OpFields.BigmapDiff op"
  unfolding Op_column_def
  by (auto simp: assign_eq_Inr split: if_splits
      dest: Op_column_entrypoint_frame Op_column_parameters_frame Op_column_storage_frame)

section \<open>The big-map updates of a row\<close>

lemma Op_column_big_map_diff_case:
  "Op_column x rcv ''big_map_diff'' f op = Op_column_big_map_diff x rcv f op"
  by (simp add: Op_column_def)

lemma Op_bigmap_updates_nth:
  "Op_bigmap_updates x rcv op vs = Inr us \<Longrightarrow>
     length us = length vs \<and> (\<forall>i<length vs. Op_bigmap_update x rcv op (vs ! i) = Inr (us ! i))"
proof (induction vs arbitrary: us)
  case Nil
  then show ?case by simp
next
  case (Cons v vs)
  obtain u where u: "Op_bigmap_update x rcv op v = Inr u"
    using Cons.prems by (cases "Op_bigmap_update x rcv op v") auto
  obtain us' where us': "Op_bigmap_updates x rcv op vs = Inr us'"
    using Cons.prems u by (cases "Op_bigmap_updates x rcv op vs") auto
  have us: "us = u # us'" using Cons.prems u us' by simp
  have ih: "length us' = length vs" "\<forall>i<length vs. Op_bigmap_update x rcv op (vs ! i) = Inr (us' ! i)"
    using Cons.IH [OF us'] by auto
  have "\<forall>i<length (v # vs). Op_bigmap_update x rcv op ((v # vs) ! i) = Inr (us ! i)"
  proof (intro allI impI)
    fix i assume "i < length (v # vs)"
    then show "Op_bigmap_update x rcv op ((v # vs) ! i) = Inr (us ! i)"
      using u us ih(2) by (cases i) auto
  qed
  then show ?case using us ih(1) by simp
qed

lemma Op_column_big_map_diff_updates:
  assumes "Op_column_big_map_diff x rcv (JString h) op = Inr op'"
    and "hex_DecodeString x h = Inr buf" and "buf \<noteq> []"
    and "BigmapEvents_UnmarshalBinary x buf = Inr bmd"
  shows "Op_bigmap_updates x rcv op bmd = Inr (OpFields.BigmapDiff op')"
  using assms
  by (auto simp: Op_column_big_map_diff_def assert_string_def assign_def split: sum.splits)

lemma Op_bigmap_update_value:
  assumes "Op_bigmap_update x rcv op v = Inr u"
  shows "BigmapUpdate.Action u = BigmapEvent.Action v
       \<and> (BigmapEvent.Action v \<noteq> DiffActionUpdate \<longrightarrow>
            BigmapValue.Value (BigmapUpdate.BigmapValue u) = JNull)
       \<and> (BigmapEvent.Action v = DiffActionUpdate \<and> \<not> value_type_resolved x rcv v \<longrightarrow>
            BigmapValue.Value (BigmapUpdate.BigmapValue u) = JNull)
       \<and> (BigmapEvent.Action v = DiffActionUpdate \<and> value_type_resolved x rcv v \<longrightarrow>
            Value_Map x (snd (Op_bigmap_types x rcv v)) (BigmapEvent.Value v)
              (OpFields.onError (flds rcv))
            = Inr (BigmapValue.Value (BigmapUpdate.BigmapValue u)))"
proof (cases "Op_bigmap_types x rcv v")
  case (Pair ktyp vtyp)
  have z: "BigmapValue.Value (Op_bigmap_key_meta x rcv op v ktyp) = JNull"
    by (simp add: Op_bigmap_key_meta_def Let_def BigmapValue_zero_def)
  have a: "BigmapValue.Value (BigmapUpdate.BigmapValue (Op_bigmap_alloc_copy x op v w))
             = BigmapValue.Value (BigmapUpdate.BigmapValue w)" for w
    by (simp add: Op_bigmap_alloc_copy_def Let_def)
  have a0: "BigmapUpdate.Action (Op_bigmap_alloc_copy x op v w) = BigmapUpdate.Action w" for w
    by (simp add: Op_bigmap_alloc_copy_def Let_def)
  have bz: "BigmapValue.Value (BigmapUpdate.BigmapValue BigmapUpdate_zero) = JNull"
    by (simp add: BigmapUpdate_zero_def BigmapValue_zero_def)
  show ?thesis
    using assms Pair z a a0 bz
    by (cases "BigmapEvent.Action v")
      (auto simp: Op_bigmap_update_def value_type_resolved_def Let_def split: sum.splits if_splits)
qed

lemma Op_bigmap_update_meta:
  assumes "Op_bigmap_update x rcv op v = Inr u"
    and "OpFields.withMeta (flds rcv)"
    and "BigmapEvent.Action v = DiffActionUpdate \<or> BigmapEvent.Action v = DiffActionRemove"
  shows "BigmapValue.Meta (BigmapUpdate.BigmapValue u) =
           Some \<lparr>BigmapMeta.Contract = OpFields.Receiver op,
                 BigmapMeta.BigmapId = BigmapEvent.Id v,
                 BigmapMeta.UpdateTime = OpFields.Timestamp op,
                 BigmapMeta.UpdateHeight = OpFields.Height op\<rparr>"
proof (cases "Op_bigmap_types x rcv v")
  case (Pair ktyp vtyp)
  have m: "BigmapValue.Meta (Op_bigmap_key_meta x rcv op v ktyp) =
           Some \<lparr>BigmapMeta.Contract = OpFields.Receiver op,
                 BigmapMeta.BigmapId = BigmapEvent.Id v,
                 BigmapMeta.UpdateTime = OpFields.Timestamp op,
                 BigmapMeta.UpdateHeight = OpFields.Height op\<rparr>"
    using assms(2) by (simp add: Op_bigmap_key_meta_def Let_def)
  show ?thesis
    using assms(1,3) Pair m
    by (auto simp: Op_bigmap_update_def Let_def split: sum.splits if_splits)
qed

section \<open>The rows of a list\<close>

lemma Op_UnmarshalJSONBrief_no_children:
  "Op_UnmarshalJSONBrief x data rcv = (None, r) \<Longrightarrow> Batch r = [] \<and> Internal r = []"
  by (auto simp: Op_UnmarshalJSONBrief_def split: sum.splits)

lemma Op_WithScript_None_fresh:
  "Op_WithScript None (Op (OpFields_zero\<lparr>OpFields.withPrim := p, OpFields.columns := cs\<rparr>) [] [])
     = Op (OpFields_zero\<lparr>OpFields.withPrim := p, OpFields.columns := cs\<rparr>) [] []"
  by (simp add: Op_WithScript_def Op_with_def OpFields_zero_def)

lemma OpList_load_script_Rows:
  "OpList_load_script x (l\<lparr>OpList.Rows := rs\<rparr>) v op c = OpList_load_script x l v op c"
  by (simp add: OpList_load_script_def cong: prod.case_cong if_cong)

lemma OpList_row_Rows:
  "OpList_row x (l\<lparr>OpList.Rows := rs\<rparr>) v c = OpList_row x l v c"
  by (simp add: OpList_row_def OpList_load_script_Rows)

lemma OpList_range_array_rows:
  "OpList_range_array x vs (l, c) = (None, l', c') \<Longrightarrow>
     \<exists>ops. length ops = length vs \<and> OpList.Rows l' = OpList.Rows l @ map Some ops
       \<and> (\<forall>i<length vs. \<exists>ci ci'. OpList_row x l (vs ! i) ci = (Inr (ops ! i), ci'))"
proof (induction vs arbitrary: l c)
  case Nil
  then show ?case by simp
next
  case (Cons v vs)
  obtain r c1 where row: "OpList_row x l v c = (r, c1)" by (cases "OpList_row x l v c")
  show ?case
  proof (cases r)
    case (Inl e)
    then show ?thesis using Cons.prems row by simp
  next
    case (Inr op)
    let ?l1 = "l\<lparr>OpList.Rows := OpList.Rows l @ [Some op]\<rparr>"
    have "OpList_range_array x vs (?l1, c1) = (None, l', c')"
      using Cons.prems row Inr by simp
    then obtain ops where ops: "length ops = length vs"
      "OpList.Rows l' = OpList.Rows ?l1 @ map Some ops"
      "\<forall>i<length vs. \<exists>ci ci'. OpList_row x ?l1 (vs ! i) ci = (Inr (ops ! i), ci')"
      using Cons.IH by blast
    have each: "\<forall>i<length (v # vs). \<exists>ci ci'. OpList_row x l ((v # vs) ! i) ci = (Inr ((op # ops) ! i), ci')"
    proof (intro allI impI)
      fix i assume i: "i < length (v # vs)"
      show "\<exists>ci ci'. OpList_row x l ((v # vs) ! i) ci = (Inr ((op # ops) ! i), ci')"
      proof (cases i)
        case 0
        then show ?thesis using row Inr by auto
      next
        case (Suc j)
        then have "j < length vs" using i by simp
        then show ?thesis using ops(3) Suc by (simp add: OpList_row_Rows)
      qed
    qed
    have "length (op # ops) = length (v # vs)" using ops(1) by simp
    moreover have "OpList.Rows l' = OpList.Rows l @ map Some (op # ops)" using ops(2) by simp
    ultimately show ?thesis using each by blast
  qed
qed

lemma OpList_range_array_succeeds:
  "(\<forall>v\<in>set vs. \<forall>c0. \<exists>op c1. OpList_row x l v c0 = (Inr op, c1)) \<Longrightarrow>
     fst (OpList_range_array x vs (l, c)) = None"
proof (induction vs arbitrary: l c)
  case Nil
  then show ?case by simp
next
  case (Cons v vs)
  obtain op c1 where row: "OpList_row x l v c = (Inr op, c1)"
    using Cons.prems by (meson list.set_intros(1))
  let ?l1 = "l\<lparr>OpList.Rows := OpList.Rows l @ [Some op]\<rparr>"
  have "\<forall>w\<in>set vs. \<forall>c0. \<exists>op c1. OpList_row x ?l1 w c0 = (Inr op, c1)"
    using Cons.prems by (simp add: OpList_row_Rows)
  then have "fst (OpList_range_array x vs (?l1, c1)) = None"
    using Cons.IH by blast
  then show ?case using row by simp
qed

lemma BlockList_row_Rows:
  "BlockList_row x (l\<lparr>BlockList.Rows := rs\<rparr>) v = BlockList_row x l v"
  by (simp add: BlockList_row_def)

lemma BlockList_range_array_rows:
  "BlockList_range_array x vs l = (None, l') \<Longrightarrow>
     \<exists>blocks. length blocks = length vs \<and> BlockList.Rows l' = BlockList.Rows l @ map Some blocks
       \<and> (\<forall>i<length vs. BlockList_row x l (vs ! i) = Inr (blocks ! i))"
proof (induction vs arbitrary: l)
  case Nil
  then show ?case by simp
next
  case (Cons v vs)
  show ?case
  proof (cases "BlockList_row x l v")
    case (Inl e)
    then show ?thesis using Cons.prems by simp
  next
    case (Inr r)
    let ?l1 = "l\<lparr>BlockList.Rows := BlockList.Rows l @ [Some r]\<rparr>"
    have "BlockList_range_array x vs ?l1 = (None, l')"
      using Cons.prems Inr by simp
    then obtain bs where bs: "length bs = length vs"
      "BlockList.Rows l' = BlockList.Rows ?l1 @ map Some bs"
      "\<forall>i<length vs. BlockList_row x ?l1 (vs ! i) = Inr (bs ! i)"
      using Cons.IH by blast
    have each: "\<forall>i<length (v # vs). BlockList_row x l ((v # vs) ! i) = Inr ((r # bs) ! i)"
    proof (intro allI impI)
      fix i assume i: "i < length (v # vs)"
      show "BlockList_row x l ((v # vs) ! i) = Inr ((r # bs) ! i)"
      proof (cases i)
        case 0
        then show ?thesis using Inr by simp
      next
        case (Suc j)
        then have "j < length vs" using i by simp
        then show ?thesis using bs(3) Suc by (simp add: BlockList_row_Rows)
      qed
    qed
    have "length (r # bs) = length (v # vs)" using bs(1) by simp
    moreover have "BlockList.Rows l' = BlockList.Rows l @ map Some (r # bs)" using bs(2) by simp
    ultimately show ?thesis using each by blast
  qed
qed

lemma BlockList_range_array_succeeds:
  "(\<forall>v\<in>set vs. \<exists>r. BlockList_row x l v = Inr r) \<Longrightarrow>
     fst (BlockList_range_array x vs l) = None"
proof (induction vs arbitrary: l)
  case Nil
  then show ?case by simp
next
  case (Cons v vs)
  obtain r where row: "BlockList_row x l v = Inr r"
    using Cons.prems by (meson list.set_intros(1))
  let ?l1 = "l\<lparr>BlockList.Rows := BlockList.Rows l @ [Some r]\<rparr>"
  have "\<forall>w\<in>set vs. \<exists>r. BlockList_row x ?l1 w = Inr r"
    using Cons.prems by (simp add: BlockList_row_Rows)
  then have "fst (BlockList_range_array x vs ?l1) = None"
    using Cons.IH by blast
  then show ?case using row by simp
qed

section \<open>Facts of the example environment\<close>

lemma example_json_true: "json_Decode example_ext ''[true]'' = Inr [JBool True]"
  by (simp add: example_ext_def example_lookup_def example_json_def)

lemma example_json_frac: "json_Decode example_ext ''[1.5]'' = Inr [JNumber ''1.5'']"
  by (simp add: example_ext_def example_lookup_def example_json_def)

lemma example_json_seven: "json_Decode example_ext ''[7]'' = Inr [JNumber ''7'']"
  by (simp add: example_ext_def example_lookup_def example_json_def)

lemma example_json_eight: "json_Decode example_ext ''[8]'' = Inr [JNumber ''8'']"
  by (simp add: example_ext_def example_lookup_def example_json_def)

lemma example_json_row:
  \<open>json_Decode example_ext ''["00","KT1Puc9St8wdNoGtLiD2WXaHbWU7styaxYhD",3]''
     = Inr [JString ''00'', JString ''KT1Puc9St8wdNoGtLiD2WXaHbWU7styaxYhD'', JNumber ''3'']\<close>
  by (simp add: example_ext_def example_lookup_def example_json_def)

lemma example_arrays_two: "json_Unmarshal_RawMessages example_ext ''[[7],[8]]'' = Inr [''[7]'', ''[8]'']"
  by (simp add: example_ext_def example_lookup_def example_arrays_def)

lemma example_arrays_contract:
  \<open>json_Unmarshal_RawMessages example_ext
       ''[[7,1,"KT1Puc9St8wdNoGtLiD2WXaHbWU7styaxYhD",3],[8,1,"KT1Puc9St8wdNoGtLiD2WXaHbWU7styaxYhD",3]]''
     = Inr [''[7,1,"KT1Puc9St8wdNoGtLiD2WXaHbWU7styaxYhD",3]'', ''[8,1,"KT1Puc9St8wdNoGtLiD2WXaHbWU7styaxYhD",3]'']\<close>
  by (simp add: example_ext_def example_lookup_def example_arrays_def)

lemma example_ParseUint_frac: "strconv_ParseUint example_ext ''1.5'' = Inl (MalformedField ''1.5'')"
  by (simp add: example_ext_def example_lookup_def example_numbers_def)

lemma example_ParseUint_seven: "strconv_ParseUint example_ext ''7'' = Inr 7"
  by (simp add: example_ext_def example_lookup_def example_numbers_def)

lemma example_ParseUint_eight: "strconv_ParseUint example_ext ''8'' = Inr 8"
  by (simp add: example_ext_def example_lookup_def example_numbers_def)

lemma example_ParseAddress:
  "tezos_ParseAddress example_ext ''KT1Puc9St8wdNoGtLiD2WXaHbWU7styaxYhD''
     = Inr (TzAddress ''KT1Puc9St8wdNoGtLiD2WXaHbWU7styaxYhD'')"
  by (simp add: example_ext_def example_lookup_def)

lemma example_ParseBool_one: "strconv_ParseBool example_ext ''1'' = Inr True"
  by (simp add: example_ext_def example_lookup_def example_bools_def)

lemma example_ParseInt_three: "strconv_ParseInt example_ext ''3'' = Inr 3"
  by (simp add: example_ext_def example_lookup_def example_numbers_def)

lemma example_getTableColumn_is_contract:
  \<open>getTableColumn example_ext ''[7,1,"KT1Puc9St8wdNoGtLiD2WXaHbWU7styaxYhD",3]''
     [''id'', ''is_contract'', ''receiver'', ''height''] ''is_contract'' = (''1'', True)\<close>
  \<open>getTableColumn example_ext ''[8,1,"KT1Puc9St8wdNoGtLiD2WXaHbWU7styaxYhD",3]''
     [''id'', ''is_contract'', ''receiver'', ''height''] ''is_contract'' = (''1'', True)\<close>
  by (simp_all add: example_ext_def example_table_columns_def)

lemma example_getTableColumn_receiver:
  \<open>getTableColumn example_ext ''[7,1,"KT1Puc9St8wdNoGtLiD2WXaHbWU7styaxYhD",3]''
     [''id'', ''is_contract'', ''receiver'', ''height''] ''receiver''
     = (''KT1Puc9St8wdNoGtLiD2WXaHbWU7styaxYhD'', True)\<close>
  \<open>getTableColumn example_ext ''[8,1,"KT1Puc9St8wdNoGtLiD2WXaHbWU7styaxYhD",3]''
     [''id'', ''is_contract'', ''receiver'', ''height''] ''receiver''
     = (''KT1Puc9St8wdNoGtLiD2WXaHbWU7styaxYhD'', True)\<close>
  by (simp_all add: example_ext_def example_table_columns_def)

lemma example_getTableColumn_none:
  "getTableColumn example_ext ''[7]'' cols n = ([], False)"
  "getTableColumn example_ext ''[8]'' cols n = ([], False)"
  by (simp_all add: example_ext_def example_table_columns_def)

lemma example_json_contract_rows:
  \<open>json_Decode example_ext ''[7,1,"KT1Puc9St8wdNoGtLiD2WXaHbWU7styaxYhD",3]''
     = Inr [JNumber ''7'', JNumber ''1'', JString ''KT1Puc9St8wdNoGtLiD2WXaHbWU7styaxYhD'', JNumber ''3'']\<close>
  \<open>json_Decode example_ext ''[8,1,"KT1Puc9St8wdNoGtLiD2WXaHbWU7styaxYhD",3]''
     = Inr [JNumber ''8'', JNumber ''1'', JString ''KT1Puc9St8wdNoGtLiD2WXaHbWU7styaxYhD'', JNumber ''3'']\<close>
  by (simp_all add: example_ext_def example_lookup_def example_json_def)

lemma example_ext_nil_script_same:
  "json_Decode example_ext_nil_script = json_Decode example_ext"
  "json_Unmarshal_RawMessages example_ext_nil_script = json_Unmarshal_RawMessages example_ext"
  "strconv_ParseUint example_ext_nil_script = strconv_ParseUint example_ext"
  "strconv_ParseInt example_ext_nil_script = strconv_ParseInt example_ext"
  "strconv_ParseBool example_ext_nil_script = strconv_ParseBool example_ext"
  "tezos_ParseAddress example_ext_nil_script = tezos_ParseAddress example_ext"
  "getTableColumn example_ext_nil_script = getTableColumn example_ext"
  "loadCachedContractScript example_ext_nil_script c a = (Inr None, c)"
  by (simp_all add: example_ext_nil_script_def)

lemma example_contract_row_columns:
  "Op_column x rcv ''id'' (JNumber t) op = assign (\<lambda>n. op\<lparr>OpFields.Id := n\<rparr>) (returned (strconv_ParseUint x t))"
  "Op_column x rcv ''is_contract'' (JNumber t) op
     = assign (\<lambda>b. op\<lparr>OpFields.IsContract := b\<rparr>) (returned (strconv_ParseBool x t))"
  "Op_column x rcv ''receiver'' (JString t) op
     = assign (\<lambda>a. op\<lparr>OpFields.Receiver := a\<rparr>) (returned (tezos_ParseAddress x t))"
  "Op_column x rcv ''height'' (JNumber t) op
     = assign (\<lambda>n. op\<lparr>OpFields.Height := n\<rparr>) (returned (strconv_ParseInt x t))"
  by (simp_all add: Op_column_def parse_Number_def parse_string_def assert_Number_def
      assert_string_def)

lemma example_contract_row_seven:
  \<open>Op_UnmarshalJSON example_ext_nil_script ''[7,1,"KT1Puc9St8wdNoGtLiD2WXaHbWU7styaxYhD",3]''
     (Op (OpFields_zero\<lparr>OpFields.withPrim := False,
                        OpFields.columns := [''id'', ''is_contract'', ''receiver'', ''height'']\<rparr>)
        [] [])
   = (None,
      Op (OpFields_zero\<lparr>OpFields.Id := 7, OpFields.IsContract := True,
                        OpFields.Receiver := TzAddress ''KT1Puc9St8wdNoGtLiD2WXaHbWU7styaxYhD'',
                        OpFields.Height := 3\<rparr>) [] [])\<close>
  by (simp add: Op_UnmarshalJSON_def Op_UnmarshalJSONBrief_def example_ext_nil_script_same
      example_json_contract_rows example_contract_row_columns example_ParseUint_seven
      example_ParseBool_one example_ParseAddress example_ParseInt_three returned_def assign_def)

lemma example_contract_row_eight:
  \<open>Op_UnmarshalJSON example_ext_nil_script ''[8,1,"KT1Puc9St8wdNoGtLiD2WXaHbWU7styaxYhD",3]''
     (Op (OpFields_zero\<lparr>OpFields.withPrim := False,
                        OpFields.columns := [''id'', ''is_contract'', ''receiver'', ''height'']\<rparr>)
        [] [])
   = (None,
      Op (OpFields_zero\<lparr>OpFields.Id := 8, OpFields.IsContract := True,
                        OpFields.Receiver := TzAddress ''KT1Puc9St8wdNoGtLiD2WXaHbWU7styaxYhD'',
                        OpFields.Height := 3\<rparr>) [] [])\<close>
  by (simp add: Op_UnmarshalJSON_def Op_UnmarshalJSONBrief_def example_ext_nil_script_same
      example_json_contract_rows example_contract_row_columns example_ParseUint_eight
      example_ParseBool_one example_ParseAddress example_ParseInt_three returned_def assign_def)

lemma example_columns_reset:
  "Op_with (\<lambda>r. r\<lparr>OpFields.columns := []\<rparr>)
     (Op (OpFields_zero\<lparr>OpFields.Id := n, OpFields.IsContract := b, OpFields.Receiver := a,
                        OpFields.Height := h\<rparr>) [] [])
   = Op (OpFields_zero\<lparr>OpFields.Id := n, OpFields.IsContract := b, OpFields.Receiver := a,
                        OpFields.Height := h\<rparr>) [] []"
  by (simp add: Op_with_def OpFields_zero_def)

lemma example_hex: "hex_DecodeString example_ext ''00'' = Inr [CHR 0x00]"
  by (simp add: example_ext_def example_lookup_def)

lemma example_bmd: "BigmapEvents_UnmarshalBinary example_ext [CHR 0x00] = Inr example_events"
  by (simp add: example_ext_def example_lookup_def)

lemma example_Value_Map: "Value_Map example_ext t (MPrim b) r = Inr (JString b)"
  by (simp add: example_ext_def)

lemma example_IsValid: "Type_IsValid example_ext t = (t \<noteq> micheline_Type_zero)"
  by (simp add: example_ext_def)

lemma example_Right: "Type_Right example_ext t = t"
  by (simp add: example_ext_def)

lemma example_Op_column_id_frac:
  "Op_column example_ext rcv ''id'' (JNumber ''1.5'') op = Inl (Error (MalformedField ''1.5''))"
  by (simp add: Op_column_def parse_Number_def assert_Number_def returned_def assign_def
      example_ParseUint_frac)

lemma example_Block_column_row_id_frac:
  "Block_column example_ext ''row_id'' (JNumber ''1.5'') block = Inl (Error (MalformedField ''1.5''))"
  by (simp add: Block_column_def parse_Number_def assert_Number_def returned_def assign_def
      example_ParseUint_frac)

lemma example_column_receiver:
  "Op_column example_ext rcv ''receiver'' (JString ''KT1Puc9St8wdNoGtLiD2WXaHbWU7styaxYhD'') op
     = Inr (op\<lparr>OpFields.Receiver := TzAddress ''KT1Puc9St8wdNoGtLiD2WXaHbWU7styaxYhD''\<rparr>)"
proof -
  have "tezos_ParseAddress example_ext ''KT1Puc9St8wdNoGtLiD2WXaHbWU7styaxYhD''
     = Inr (TzAddress ''KT1Puc9St8wdNoGtLiD2WXaHbWU7styaxYhD'')"
    by (simp add: example_ext_def example_lookup_def)
  then show ?thesis
    by (simp add: Op_column_def parse_string_def assert_string_def returned_def assign_def)
qed

lemma example_column_height:
  "Op_column example_ext rcv ''height'' (JNumber ''3'') op = Inr (op\<lparr>OpFields.Height := 3\<rparr>)"
proof -
  have "strconv_ParseInt example_ext ''3'' = Inr 3"
    by (simp add: example_ext_def example_lookup_def example_numbers_def)
  then show ?thesis
    by (simp add: Op_column_def parse_Number_def assert_Number_def returned_def assign_def)
qed

lemma example_bigmap_update_returns:
  "\<exists>u. Op_bigmap_update example_ext rcv op v = Inr u"
proof -
  obtain b where b: "BigmapEvent.Value v = MPrim b" by (cases "BigmapEvent.Value v") auto
  show ?thesis
    by (cases "Op_bigmap_types example_ext rcv v")
      (simp add: Op_bigmap_update_def Let_def b example_Value_Map)
qed

lemma example_bigmap_updates_return:
  "\<exists>us. Op_bigmap_updates example_ext rcv op vs = Inr us"
proof (induction vs)
  case Nil
  then show ?case by simp
next
  case (Cons v vs)
  obtain u where "Op_bigmap_update example_ext rcv op v = Inr u"
    using example_bigmap_update_returns by blast
  then show ?case using Cons by auto
qed

lemma example_big_map_diff_returns:
  "\<exists>op'. Op_column example_ext rcv ''big_map_diff'' (JString ''00'') op = Inr op'"
proof -
  obtain us where "Op_bigmap_updates example_ext rcv op example_events = Inr us"
    using example_bigmap_updates_return by blast
  then show ?thesis
    by (simp add: Op_column_big_map_diff_case Op_column_big_map_diff_def assert_string_def
        example_hex example_bmd assign_def)
qed

lemma example_OpList_row_seven:
  "OpList_row example_ext \<lparr>OpList.Rows = rs, OpList.withPrim = False, OpList.columns = [''id'']\<rparr>
     ''[7]'' c = (Inr (Op (OpFields_zero\<lparr>OpFields.Id := 7\<rparr>) [] []), c)"
  by (simp add: OpList_row_def OpList_load_script_def
      example_getTableColumn_none Op_UnmarshalJSON_def Op_UnmarshalJSONBrief_def
      example_json_seven Op_column_def parse_Number_def assert_Number_def
      returned_def assign_def example_ParseUint_seven Op_with_def)
    (simp add: OpFields_zero_def)

lemma example_OpList_row_eight:
  "OpList_row example_ext \<lparr>OpList.Rows = rs, OpList.withPrim = False, OpList.columns = [''id'']\<rparr>
     ''[8]'' c = (Inr (Op (OpFields_zero\<lparr>OpFields.Id := 8\<rparr>) [] []), c)"
  by (simp add: OpList_row_def OpList_load_script_def
      example_getTableColumn_none Op_UnmarshalJSON_def Op_UnmarshalJSONBrief_def
      example_json_eight Op_column_def parse_Number_def assert_Number_def
      returned_def assign_def example_ParseUint_eight Op_with_def)
    (simp add: OpFields_zero_def)

lemma example_BlockList_row_seven:
  "BlockList_row example_ext \<lparr>BlockList.Rows = rs, BlockList.columns = [''row_id'']\<rparr> ''[7]''
     = Inr (Block_zero\<lparr>Block.RowId := 7\<rparr>)"
  by (simp add: BlockList_row_def Block_UnmarshalJSON_def Block_UnmarshalJSONBrief_def
      example_json_seven Block_column_def parse_Number_def assert_Number_def
      returned_def assign_def example_ParseUint_seven)
    (simp add: Block_zero_def)

lemma example_BlockList_row_eight:
  "BlockList_row example_ext \<lparr>BlockList.Rows = rs, BlockList.columns = [''row_id'']\<rparr> ''[8]''
     = Inr (Block_zero\<lparr>Block.RowId := 8\<rparr>)"
  by (simp add: BlockList_row_def Block_UnmarshalJSON_def Block_UnmarshalJSONBrief_def
      example_json_eight Block_column_def parse_Number_def assert_Number_def
      returned_def assign_def example_ParseUint_eight)
    (simp add: Block_zero_def)

lemma example_OpList_two:
  "OpList_UnmarshalJSON example_ext ''[[7],[8]]''
     (\<lparr>OpList.Rows = [], OpList.withPrim = False, OpList.columns = [''id'']\<rparr>, \<lparr>cache = Map.empty\<rparr>)
   = (None,
      \<lparr>OpList.Rows = [Some (Op (OpFields_zero\<lparr>OpFields.Id := 7\<rparr>) [] []),
                       Some (Op (OpFields_zero\<lparr>OpFields.Id := 8\<rparr>) [] [])],
       OpList.withPrim = False, OpList.columns = [''id'']\<rparr>, \<lparr>cache = Map.empty\<rparr>)"
  by (simp add: OpList_UnmarshalJSON_def example_arrays_two OpList_row_def OpList_load_script_def
      example_getTableColumn_none Op_UnmarshalJSON_def Op_UnmarshalJSONBrief_def
      example_json_seven example_json_eight Op_column_def parse_Number_def assert_Number_def
      returned_def assign_def example_ParseUint_seven example_ParseUint_eight Op_with_def)
    (simp add: OpFields_zero_def)

lemma example_BlockList_two:
  "BlockList_UnmarshalJSON example_ext ''[[7],[8]]''
     \<lparr>BlockList.Rows = [], BlockList.columns = [''row_id'']\<rparr>
   = (None,
      \<lparr>BlockList.Rows = [Some (Block_zero\<lparr>Block.RowId := 7\<rparr>), Some (Block_zero\<lparr>Block.RowId := 8\<rparr>)],
       BlockList.columns = [''row_id'']\<rparr>)"
  by (simp add: BlockList_UnmarshalJSON_def example_arrays_two BlockList_row_def
      Block_UnmarshalJSON_def Block_UnmarshalJSONBrief_def
      example_json_seven example_json_eight Block_column_def parse_Number_def assert_Number_def
      returned_def assign_def example_ParseUint_seven example_ParseUint_eight)
    (simp add: Block_zero_def)

section \<open>The cursor of an operation list\<close>

text \<open>
  C1. The specification makes the cursor of an operation list the sentinel 0 when the
  list is empty, and otherwise the identifier of the deepest last child of the last row:
  the last internal operation of the last batch item, else the last batch item, else
  the row itself. \<open>OpList.Cursor\<close> does not go into the children: its comment says that
  the table API sets the row identifier only, and it returns \<open>Rows[len-1].Id\<close>. What
  holds is this. \<open>OpList.Cursor\<close> returns 0 for an empty list and otherwise the identifier
  of the last row itself. That is the specification's cursor whenever the last row has
  no batch items, which is so for every row that the columnar decoder produced. The
  walk through the children is \<open>Op.Cursor\<close>, a method of one operation: on a row with
  batch items it returns the specification's cursor (and panics on a \<open>nil\<close> child).
\<close>

theorem OpList_Cursor_last_row:
  "(OpList.Rows l = [] \<longrightarrow> OpList_Cursor l = Inr 0 \<and> spec_OpList_Cursor l = Some 0)
   \<and> (OpList.Rows l \<noteq> [] \<and> last (OpList.Rows l) = Some row \<longrightarrow>
        OpList_Cursor l = Inr (OpFields.Id (flds row))
      \<and> (Batch row = [] \<longrightarrow> spec_OpList_Cursor l = Some (OpFields.Id (flds row)))
      \<and> (\<forall>x data rcv. Op_UnmarshalJSONBrief x data rcv = (None, row) \<longrightarrow>
            spec_OpList_Cursor l = Some (OpFields.Id (flds row)))
      \<and> (Batch row \<noteq> [] \<longrightarrow>
            Op_Cursor row = (case spec_OpList_Cursor l of
                               None \<Rightarrow> Inl (Panic NilDereference)
                             | Some n \<Rightarrow> Inr n)))"
proof -
  have a: "OpList.Rows l = [] \<Longrightarrow> OpList_Cursor l = Inr 0 \<and> spec_OpList_Cursor l = Some 0"
    by (simp add: OpList_Cursor_def spec_OpList_Cursor_def)
  have b: "OpList.Rows l \<noteq> [] \<Longrightarrow> last (OpList.Rows l) = Some row \<Longrightarrow>
             OpList_Cursor l = Inr (OpFields.Id (flds row))"
    by (simp add: OpList_Cursor_def last_conv_nth)
  have c: "OpList.Rows l \<noteq> [] \<Longrightarrow> last (OpList.Rows l) = Some row \<Longrightarrow> Batch row = [] \<Longrightarrow>
             spec_OpList_Cursor l = Some (OpFields.Id (flds row))"
    by (simp add: spec_OpList_Cursor_def spec_deepest_last_child_def)
  have d: "OpList.Rows l \<noteq> [] \<Longrightarrow> last (OpList.Rows l) = Some row \<Longrightarrow> Batch row \<noteq> [] \<Longrightarrow>
             Op_Cursor row = (case spec_OpList_Cursor l of
                                None \<Rightarrow> Inl (Panic NilDereference)
                              | Some n \<Rightarrow> Inr n)"
    by (auto simp: Op_Cursor_def spec_OpList_Cursor_def spec_deepest_last_child_def last_conv_nth
        split: option.splits)
  show ?thesis using a b c d Op_UnmarshalJSONBrief_no_children by blast
qed

text \<open>
  An empty list, and a list of one row with identifier 7 and no children.
\<close>

theorem OpList_Cursor_last_row_witness:
  "OpList_Cursor \<lparr>OpList.Rows = [], OpList.withPrim = False, OpList.columns = []\<rparr> = Inr 0
   \<and> OpList_Cursor
       \<lparr>OpList.Rows = [Some (Op (OpFields_zero\<lparr>OpFields.Id := 7\<rparr>) [] [])],
        OpList.withPrim = False, OpList.columns = []\<rparr> = Inr 7
   \<and> spec_OpList_Cursor
       \<lparr>OpList.Rows = [Some (Op (OpFields_zero\<lparr>OpFields.Id := 7\<rparr>) [] [])],
        OpList.withPrim = False, OpList.columns = []\<rparr> = Some 7"
  using OpList_Cursor_last_row [of "\<lparr>OpList.Rows = [], OpList.withPrim = False, OpList.columns = []\<rparr>"]
    OpList_Cursor_last_row [of "\<lparr>OpList.Rows = [Some (Op (OpFields_zero\<lparr>OpFields.Id := 7\<rparr>) [] [])],
        OpList.withPrim = False, OpList.columns = []\<rparr>" "Op (OpFields_zero\<lparr>OpFields.Id := 7\<rparr>) [] []"]
  by simp

text \<open>
  The claim as stated fails on a list whose only row has identifier 1 and one batch item
  with identifier 2: \<open>OpList.Cursor\<close> returns 1, the deepest last child is 2.
\<close>

theorem OpList_Cursor_not_deepest_child:
  "OpList_Cursor
     \<lparr>OpList.Rows =
        [Some (Op (OpFields_zero\<lparr>OpFields.Id := 1\<rparr>)
                 [Some (Op (OpFields_zero\<lparr>OpFields.Id := 2\<rparr>) [] [])] [])],
      OpList.withPrim = False, OpList.columns = []\<rparr> = Inr 1
   \<and> spec_OpList_Cursor
     \<lparr>OpList.Rows =
        [Some (Op (OpFields_zero\<lparr>OpFields.Id := 1\<rparr>)
                 [Some (Op (OpFields_zero\<lparr>OpFields.Id := 2\<rparr>) [] [])] [])],
      OpList.withPrim = False, OpList.columns = []\<rparr> = Some 2"
  by (simp add: OpList_Cursor_def spec_OpList_Cursor_def spec_deepest_last_child_def)

section \<open>A value of the wrong JSON kind\<close>

text \<open>
  C2. The specification has a known column whose value is of the wrong JSON kind fail
  with a \<open>MalformedField\<close> error returned to the caller. Both decoders read the value with
  an unchecked type assertion, \<open>f.(json.Number)\<close> or \<open>f.(string)\<close>, and no case checks the
  kind first. What holds is this, for a position whose value is not \<open>null\<close> and whose
  earlier positions decoded. At a column of either list above, a value of another
  dynamic type than the one the case asserts makes the decode panic with a failed type
  assertion: it returns no error and does not succeed.
\<close>

theorem wrong_kind_panics:
  assumes "json_Decode x data = Inr unpacked"
    and "length pre < length unpacked"
    and "unpacked ! length pre = f" and "f \<noteq> JNull"
  shows "(OpFields.columns (flds rcv) = pre @ v # post
          \<and> range_columns (Op_column x rcv) unpacked 0 pre OpFields_zero = Inr op
          \<and> ((v \<in> set Op_Number_columns \<and> (\<forall>t. f \<noteq> JNumber t))
               \<or> (v \<in> set Op_string_columns \<and> (\<forall>t. f \<noteq> JString t)))
          \<longrightarrow> Op_UnmarshalJSONBrief x data rcv = (Some (Panic TypeAssertion), rcv))
       \<and> (Block.columns b = pre @ v # post
          \<and> range_columns (Block_column x) unpacked 0 pre Block_zero = Inr block
          \<and> ((v \<in> set Block_Number_columns \<and> (\<forall>t. f \<noteq> JNumber t))
               \<or> (v \<in> set Block_string_columns \<and> (\<forall>t. f \<noteq> JString t)))
          \<longrightarrow> Block_UnmarshalJSONBrief x data b = (Some (Panic TypeAssertion), b))"
proof -
  have op_fail: "\<And>e'. OpFields.columns (flds rcv) = pre @ v # post \<Longrightarrow>
      range_columns (Op_column x rcv) unpacked 0 pre OpFields_zero = Inr op \<Longrightarrow>
      Op_column x rcv v f op = Inl e' \<Longrightarrow> Op_UnmarshalJSONBrief x data rcv = (Some e', rcv)"
    using assms by (simp add: Op_UnmarshalJSONBrief_def range_columns_append)
  have bl_fail: "\<And>e'. Block.columns b = pre @ v # post \<Longrightarrow>
      range_columns (Block_column x) unpacked 0 pre Block_zero = Inr block \<Longrightarrow>
      Block_column x v f block = Inl e' \<Longrightarrow> Block_UnmarshalJSONBrief x data b = (Some e', b)"
    using assms by (simp add: Block_UnmarshalJSONBrief_def range_columns_append)
  have a: "OpFields.columns (flds rcv) = pre @ v # post \<Longrightarrow>
      range_columns (Op_column x rcv) unpacked 0 pre OpFields_zero = Inr op \<Longrightarrow>
      (v \<in> set Op_Number_columns \<and> (\<forall>t. f \<noteq> JNumber t))
        \<or> (v \<in> set Op_string_columns \<and> (\<forall>t. f \<noteq> JString t)) \<Longrightarrow>
      Op_UnmarshalJSONBrief x data rcv = (Some (Panic TypeAssertion), rcv)"
    using op_fail Op_column_Number_wrong_kind Op_column_string_wrong_kind by blast
  have b: "Block.columns b = pre @ v # post \<Longrightarrow>
      range_columns (Block_column x) unpacked 0 pre Block_zero = Inr block \<Longrightarrow>
      (v \<in> set Block_Number_columns \<and> (\<forall>t. f \<noteq> JNumber t))
        \<or> (v \<in> set Block_string_columns \<and> (\<forall>t. f \<noteq> JString t)) \<Longrightarrow>
      Block_UnmarshalJSONBrief x data b = (Some (Panic TypeAssertion), b)"
    using bl_fail Block_column_Number_wrong_kind Block_column_string_wrong_kind by blast
  show ?thesis using a b by blast
qed

text \<open>The JSON literal \<open>true\<close> where the number \<open>0\<close> or \<open>1\<close> is expected.\<close>

theorem wrong_kind_panics_witness:
  "json_Decode example_ext ''[true]'' = Inr [JBool True]
   \<and> ''is_success'' \<in> set Op_Number_columns
   \<and> ''is_orphan'' \<in> set Block_Number_columns
   \<and> Op_UnmarshalJSONBrief example_ext ''[true]'' (example_receiver [''is_success''])
       = (Some (Panic TypeAssertion), example_receiver [''is_success''])
   \<and> Block_UnmarshalJSONBrief example_ext ''[true]'' (Block_zero\<lparr>Block.columns := [''is_orphan'']\<rparr>)
       = (Some (Panic TypeAssertion), Block_zero\<lparr>Block.columns := [''is_orphan'']\<rparr>)"
proof -
  have n1: "''is_success'' \<in> set Op_Number_columns" by (simp add: Op_Number_columns_def)
  have n2: "''is_orphan'' \<in> set Block_Number_columns" by (simp add: Block_Number_columns_def)
  have c: "\<And>cs. OpFields.columns (flds (example_receiver cs)) = cs"
    by (simp add: example_receiver_def)
  have w1: "Op_UnmarshalJSONBrief example_ext ''[true]'' (example_receiver [''is_success''])
       = (Some (Panic TypeAssertion), example_receiver [''is_success''])"
    using wrong_kind_panics [OF example_json_true, of "[]" "JBool True"
        "example_receiver [''is_success'']" "''is_success''" "[]" OpFields_zero] n1 c
    by simp
  have w2: "Block_UnmarshalJSONBrief example_ext ''[true]'' (Block_zero\<lparr>Block.columns := [''is_orphan'']\<rparr>)
       = (Some (Panic TypeAssertion), Block_zero\<lparr>Block.columns := [''is_orphan'']\<rparr>)"
    using wrong_kind_panics [OF example_json_true, of "[]" "JBool True" _ "''is_orphan''" "[]" _
        "Block_zero\<lparr>Block.columns := [''is_orphan'']\<rparr>" Block_zero] n2
    by simp
  show ?thesis using w1 w2 n1 n2 example_json_true by simp
qed

text \<open>
  The claim as stated fails on the row \<open>[true]\<close> with the column \<open>is_success\<close>: the decode
  does not return a \<open>MalformedField\<close> error, it panics.
\<close>

theorem wrong_kind_is_no_error:
  "Op_UnmarshalJSONBrief example_ext ''[true]''
     (Op (OpFields_zero\<lparr>OpFields.columns := [''is_success'']\<rparr>) [] [])
   = (Some (Panic TypeAssertion), Op (OpFields_zero\<lparr>OpFields.columns := [''is_success'']\<rparr>) [] [])"
  by (simp add: Op_UnmarshalJSONBrief_def example_json_true Op_column_def wrong_kind)

section \<open>A contract whose script is not found\<close>

text \<open>
  C3. The specification has the row decoder tolerate a schema lookup that reports
  \<open>NotFound\<close>, by decoding parameters, storage and big-map updates untyped and going on
  with the batch. \<open>NotFound\<close> is an error of the specification's taxonomy, and the lookup
  returns a script and an error: \<open>OpList.UnmarshalJSON\<close> returns every error of the lookup
  at once, whatever its kind. What holds is this, for a row whose \<open>is_contract\<close> column is
  \<open>1\<close> and whose receiver parses. When the lookup returns an error, \<open>NotFound\<close> included,
  the batch decode stops at this row and returns that error. When the lookup returns
  no script and no error, \<open>WithScript(nil)\<close> leaves the parameter, storage and big-map
  types empty, the row is decoded as a row with no script is, and the batch goes on.
\<close>

theorem script_lookup_outcomes:
  assumes "getTableColumn x v (OpList.columns l) ''is_contract'' = (''1'', True)"
    and "getTableColumn x v (OpList.columns l) ''receiver'' = (recv, True)"
    and "recv \<noteq> []" and "recv \<noteq> ''null''"
    and "tezos_ParseAddress x recv = Inr addr"
  shows "(loadCachedContractScript x c addr = (Inl err, c') \<longrightarrow>
            OpList_range_array x (v # vs) (l, c) = (Some (Error err), l, c'))
       \<and> (loadCachedContractScript x c addr = (Inr None, c') \<longrightarrow>
            OpList_row x l v c =
              (case Op_UnmarshalJSON x v
                      (Op (OpFields_zero\<lparr>OpFields.withPrim := OpList.withPrim l,
                                         OpFields.columns := OpList.columns l\<rparr>) [] []) of
                 (Some e, op') \<Rightarrow> (Inl e, c')
               | (None, op') \<Rightarrow> (Inr (Op_with (\<lambda>r. r\<lparr>OpFields.columns := []\<rparr>) op'), c'))
          \<and> (\<forall>op. OpList_row x l v c = (Inr op, c') \<longrightarrow>
                OpList_range_array x (v # vs) (l, c) =
                  OpList_range_array x vs (l\<lparr>OpList.Rows := OpList.Rows l @ [Some op]\<rparr>, c')))"
proof -
  have a: "loadCachedContractScript x c addr = (Inl err, c') \<Longrightarrow>
            OpList_range_array x (v # vs) (l, c) = (Some (Error err), l, c')"
    using assms by (simp add: OpList_row_def OpList_load_script_def)
  have b: "loadCachedContractScript x c addr = (Inr None, c') \<Longrightarrow>
            OpList_row x l v c =
              (case Op_UnmarshalJSON x v
                      (Op (OpFields_zero\<lparr>OpFields.withPrim := OpList.withPrim l,
                                         OpFields.columns := OpList.columns l\<rparr>) [] []) of
                 (Some e, op') \<Rightarrow> (Inl e, c')
               | (None, op') \<Rightarrow> (Inr (Op_with (\<lambda>r. r\<lparr>OpFields.columns := []\<rparr>) op'), c'))"
    using assms by (simp add: OpList_row_def OpList_load_script_def Op_WithScript_None_fresh)
  have c: "\<And>op. OpList_row x l v c = (Inr op, c') \<Longrightarrow>
                OpList_range_array x (v # vs) (l, c) =
                  OpList_range_array x vs (l\<lparr>OpList.Rows := OpList.Rows l @ [Some op]\<rparr>, c')"
    by simp
  show ?thesis using a b c by blast
qed

text \<open>
  A batch of two contract rows, with \<open>is_contract\<close> and \<open>receiver\<close> in the second and third
  position. With the example resolver, which returns \<open>NotFound\<close>, the loop stops at the
  first row. With the resolver that returns no script and no error, both rows are
  decoded and appended.
\<close>

theorem script_lookup_outcomes_witness:
  \<open>OpList_range_array example_ext
     [''[7,1,"KT1Puc9St8wdNoGtLiD2WXaHbWU7styaxYhD",3]'', ''[8,1,"KT1Puc9St8wdNoGtLiD2WXaHbWU7styaxYhD",3]'']
     (\<lparr>OpList.Rows = [], OpList.withPrim = False,
       OpList.columns = [''id'', ''is_contract'', ''receiver'', ''height'']\<rparr>,
      \<lparr>cache = Map.empty\<rparr>)
   = (Some (Error NotFound),
      \<lparr>OpList.Rows = [], OpList.withPrim = False,
       OpList.columns = [''id'', ''is_contract'', ''receiver'', ''height'']\<rparr>,
      \<lparr>cache = Map.empty\<rparr>)
   \<and> loadCachedContractScript example_ext_nil_script \<lparr>cache = Map.empty\<rparr>
         (TzAddress ''KT1Puc9St8wdNoGtLiD2WXaHbWU7styaxYhD'') = (Inr None, \<lparr>cache = Map.empty\<rparr>)
   \<and> OpList_UnmarshalJSON example_ext_nil_script
       ''[[7,1,"KT1Puc9St8wdNoGtLiD2WXaHbWU7styaxYhD",3],[8,1,"KT1Puc9St8wdNoGtLiD2WXaHbWU7styaxYhD",3]]''
       (\<lparr>OpList.Rows = [], OpList.withPrim = False,
         OpList.columns = [''id'', ''is_contract'', ''receiver'', ''height'']\<rparr>,
        \<lparr>cache = Map.empty\<rparr>)
     = (None,
        \<lparr>OpList.Rows =
           [Some (Op (OpFields_zero\<lparr>OpFields.Id := 7, OpFields.IsContract := True,
                                    OpFields.Receiver := TzAddress ''KT1Puc9St8wdNoGtLiD2WXaHbWU7styaxYhD'',
                                    OpFields.Height := 3\<rparr>) [] []),
            Some (Op (OpFields_zero\<lparr>OpFields.Id := 8, OpFields.IsContract := True,
                                    OpFields.Receiver := TzAddress ''KT1Puc9St8wdNoGtLiD2WXaHbWU7styaxYhD'',
                                    OpFields.Height := 3\<rparr>) [] [])],
         OpList.withPrim = False,
         OpList.columns = [''id'', ''is_contract'', ''receiver'', ''height'']\<rparr>,
        \<lparr>cache = Map.empty\<rparr>)\<close>
proof -
  let ?cols = "[''id'', ''is_contract'', ''receiver'', ''height'']"
  let ?l = "\<lparr>OpList.Rows = [], OpList.withPrim = False, OpList.columns = ?cols\<rparr>"
  let ?c = "\<lparr>cache = Map.empty\<rparr>"
  let ?a = "TzAddress ''KT1Puc9St8wdNoGtLiD2WXaHbWU7styaxYhD''"
  let ?r7 = "Op (OpFields_zero\<lparr>OpFields.Id := 7, OpFields.IsContract := True,
                               OpFields.Receiver := ?a, OpFields.Height := 3\<rparr>) [] []"
  let ?l1 = "?l\<lparr>OpList.Rows := OpList.Rows ?l @ [Some ?r7]\<rparr>"
  have nf: "loadCachedContractScript example_ext ?c ?a = (Inl NotFound, ?c)"
    by (simp add: example_ext_def)
  have nil: "loadCachedContractScript example_ext_nil_script ?c ?a = (Inr None, ?c)"
    by (rule example_ext_nil_script_same)
  note same = example_ext_nil_script_same(6,7)
  have abort: \<open>OpList_range_array example_ext
                 [''[7,1,"KT1Puc9St8wdNoGtLiD2WXaHbWU7styaxYhD",3]'', ''[8,1,"KT1Puc9St8wdNoGtLiD2WXaHbWU7styaxYhD",3]''] (?l, ?c)
               = (Some (Error NotFound), ?l, ?c)\<close>
    using script_lookup_outcomes [of example_ext _ ?l _ _ ?c NotFound ?c,
        OF _ _ _ _ example_ParseAddress]
      example_getTableColumn_is_contract(1) example_getTableColumn_receiver(1) nf
    by simp
  have row7: \<open>OpList_row example_ext_nil_script ?l ''[7,1,"KT1Puc9St8wdNoGtLiD2WXaHbWU7styaxYhD",3]'' ?c = (Inr ?r7, ?c)\<close>
    using script_lookup_outcomes [of example_ext_nil_script _ ?l _ _ ?c _ ?c,
        OF _ _ _ _ example_ParseAddress [folded same]]
      example_getTableColumn_is_contract(1) example_getTableColumn_receiver(1) nil
    by (simp add: same example_contract_row_seven example_columns_reset)
  have step7: \<open>OpList_range_array example_ext_nil_script
                 [''[7,1,"KT1Puc9St8wdNoGtLiD2WXaHbWU7styaxYhD",3]'', ''[8,1,"KT1Puc9St8wdNoGtLiD2WXaHbWU7styaxYhD",3]''] (?l, ?c)
               = OpList_range_array example_ext_nil_script [''[8,1,"KT1Puc9St8wdNoGtLiD2WXaHbWU7styaxYhD",3]''] (?l1, ?c)\<close>
    using script_lookup_outcomes [of example_ext_nil_script _ ?l _ _ ?c _ ?c,
        OF _ _ _ _ example_ParseAddress [folded same]]
      example_getTableColumn_is_contract(1) example_getTableColumn_receiver(1) nil row7
    by (simp add: same)
  have row8: \<open>OpList_row example_ext_nil_script ?l1 ''[8,1,"KT1Puc9St8wdNoGtLiD2WXaHbWU7styaxYhD",3]'' ?c
               = (Inr (Op (OpFields_zero\<lparr>OpFields.Id := 8, OpFields.IsContract := True,
                                           OpFields.Receiver := ?a, OpFields.Height := 3\<rparr>) [] []),
                  ?c)\<close>
    using script_lookup_outcomes [of example_ext_nil_script _ ?l1 _ _ ?c _ ?c,
        OF _ _ _ _ example_ParseAddress [folded same]]
      example_getTableColumn_is_contract(2) example_getTableColumn_receiver(2) nil
    by (simp add: same example_contract_row_eight example_columns_reset)
  have batch: \<open>OpList_UnmarshalJSON example_ext_nil_script
                 ''[[7,1,"KT1Puc9St8wdNoGtLiD2WXaHbWU7styaxYhD",3],[8,1,"KT1Puc9St8wdNoGtLiD2WXaHbWU7styaxYhD",3]]'' (?l, ?c)
               = OpList_range_array example_ext_nil_script
                   [''[7,1,"KT1Puc9St8wdNoGtLiD2WXaHbWU7styaxYhD",3]'', ''[8,1,"KT1Puc9St8wdNoGtLiD2WXaHbWU7styaxYhD",3]''] (?l, ?c)\<close>
    by (simp add: OpList_UnmarshalJSON_def example_ext_nil_script_same example_arrays_contract)
  show ?thesis
    using abort nil batch step7 row8 by simp
qed

text \<open>
  The claim as stated fails on that batch when the resolver reports \<open>NotFound\<close>: the
  batch decode returns the error and appends no row.
\<close>

theorem NotFound_aborts_batch:
  \<open>OpList_UnmarshalJSON example_ext
     ''[[7,1,"KT1Puc9St8wdNoGtLiD2WXaHbWU7styaxYhD",3],[8,1,"KT1Puc9St8wdNoGtLiD2WXaHbWU7styaxYhD",3]]''
     (\<lparr>OpList.Rows = [], OpList.withPrim = False,
       OpList.columns = [''id'', ''is_contract'', ''receiver'', ''height'']\<rparr>,
      \<lparr>cache = Map.empty\<rparr>)
   = (Some (Error NotFound),
      \<lparr>OpList.Rows = [], OpList.withPrim = False,
       OpList.columns = [''id'', ''is_contract'', ''receiver'', ''height'']\<rparr>,
      \<lparr>cache = Map.empty\<rparr>)\<close>
  by (simp add: OpList_UnmarshalJSON_def example_arrays_contract OpList_row_def
      OpList_load_script_def example_getTableColumn_is_contract
      example_getTableColumn_receiver example_ParseAddress)
    (simp add: example_ext_def)

section \<open>A row that fails\<close>

text \<open>
  C4. A columnar row decode that ends in a fault leaves the receiver exactly as it was
  before the call: the columns fill a scratch record, and the receiver is assigned once,
  after the loop. The first column that fails ends the decode of the row, and its fault
  is what the caller gets. Both hold for operations and for blocks.
\<close>

theorem failed_row_leaves_target:
  "(fst (Op_UnmarshalJSONBrief x data rcv) \<noteq> None \<longrightarrow> snd (Op_UnmarshalJSONBrief x data rcv) = rcv)
   \<and> (fst (Block_UnmarshalJSONBrief x data b) \<noteq> None \<longrightarrow> snd (Block_UnmarshalJSONBrief x data b) = b)
   \<and> (json_Decode x data = Inr unpacked \<and> length pre < length unpacked
        \<and> unpacked ! length pre \<noteq> JNull \<and> OpFields.columns (flds rcv) = pre @ v # post
        \<and> range_columns (Op_column x rcv) unpacked 0 pre OpFields_zero = Inr op
        \<and> Op_column x rcv v (unpacked ! length pre) op = Inl e
      \<longrightarrow> Op_UnmarshalJSONBrief x data rcv = (Some e, rcv))
   \<and> (json_Decode x data = Inr unpacked \<and> length pre < length unpacked
        \<and> unpacked ! length pre \<noteq> JNull \<and> Block.columns b = pre @ v # post
        \<and> range_columns (Block_column x) unpacked 0 pre Block_zero = Inr block
        \<and> Block_column x v (unpacked ! length pre) block = Inl e
      \<longrightarrow> Block_UnmarshalJSONBrief x data b = (Some e, b))"
  by (auto simp: Op_UnmarshalJSONBrief_def Block_UnmarshalJSONBrief_def range_columns_append
      split: sum.splits)

text \<open>The row \<open>[1.5]\<close> with an unsigned integer column.\<close>

theorem failed_row_leaves_target_witness:
  "fst (Op_UnmarshalJSONBrief example_ext ''[1.5]'' (example_receiver [''id''])) \<noteq> None
   \<and> Op_UnmarshalJSONBrief example_ext ''[1.5]'' (example_receiver [''id''])
       = (Some (Error (MalformedField ''1.5'')), example_receiver [''id''])
   \<and> fst (Block_UnmarshalJSONBrief example_ext ''[1.5]'' (Block_zero\<lparr>Block.columns := [''row_id'']\<rparr>)) \<noteq> None
   \<and> Block_UnmarshalJSONBrief example_ext ''[1.5]'' (Block_zero\<lparr>Block.columns := [''row_id'']\<rparr>)
       = (Some (Error (MalformedField ''1.5'')), Block_zero\<lparr>Block.columns := [''row_id'']\<rparr>)"
proof -
  have c: "OpFields.columns (flds (example_receiver [''id''])) = [''id'']"
    by (simp add: example_receiver_def)
  have o: "Op_UnmarshalJSONBrief example_ext ''[1.5]'' (example_receiver [''id''])
       = (Some (Error (MalformedField ''1.5'')), example_receiver [''id''])"
    using failed_row_leaves_target [of example_ext "''[1.5]''" "example_receiver [''id'']" _
        "[JNumber ''1.5'']" "[]" "''id''" "[]" OpFields_zero "Error (MalformedField ''1.5'')"]
      example_json_frac c example_Op_column_id_frac
    by simp
  have b: "Block_UnmarshalJSONBrief example_ext ''[1.5]'' (Block_zero\<lparr>Block.columns := [''row_id'']\<rparr>)
       = (Some (Error (MalformedField ''1.5'')), Block_zero\<lparr>Block.columns := [''row_id'']\<rparr>)"
    using failed_row_leaves_target [of example_ext "''[1.5]''" _ "Block_zero\<lparr>Block.columns := [''row_id'']\<rparr>"
        "[JNumber ''1.5'']" "[]" "''row_id''" "[]" _ "Error (MalformedField ''1.5'')" Block_zero]
      example_json_frac example_Block_column_row_id_frac
    by simp
  show ?thesis using o b by simp
qed

section \<open>The value of a big-map update\<close>

text \<open>
  C5. In the big-map updates that the column \<open>big_map_diff\<close> decodes, one per event and in
  the order of the events: an \<open>alloc\<close> or \<open>copy\<close> record has no decoded value (the field is
  \<open>nil\<close>); a \<open>remove\<close> record has none either, whether or not the value type is resolved;
  an \<open>update\<close> record has the value that \<open>Map\<close> returns when the value type is resolved, and
  none when it is not. Where the zero type is not valid, as in the library, the value
  type is resolved exactly when the receiver's big-map table has an entry for the
  event's identifier whose right component is valid.
\<close>

theorem bigmap_value_presence:
  assumes "Op_column x rcv ''big_map_diff'' (JString h) op = Inr op'"
    and "hex_DecodeString x h = Inr buf" and "buf \<noteq> []"
    and "BigmapEvents_UnmarshalBinary x buf = Inr bmd"
    and "i < length bmd"
  shows "length (OpFields.BigmapDiff op') = length bmd
       \<and> BigmapUpdate.Action (OpFields.BigmapDiff op' ! i) = BigmapEvent.Action (bmd ! i)
       \<and> (BigmapEvent.Action (bmd ! i) = DiffActionAlloc \<or> BigmapEvent.Action (bmd ! i) = DiffActionCopy \<longrightarrow>
            BigmapValue.Value (BigmapUpdate.BigmapValue (OpFields.BigmapDiff op' ! i)) = JNull)
       \<and> (BigmapEvent.Action (bmd ! i) = DiffActionRemove \<longrightarrow>
            BigmapValue.Value (BigmapUpdate.BigmapValue (OpFields.BigmapDiff op' ! i)) = JNull)
       \<and> (BigmapEvent.Action (bmd ! i) = DiffActionUpdate \<longrightarrow>
            (if value_type_resolved x rcv (bmd ! i)
             then Value_Map x (snd (Op_bigmap_types x rcv (bmd ! i))) (BigmapEvent.Value (bmd ! i))
                    (OpFields.onError (flds rcv))
                  = Inr (BigmapValue.Value (BigmapUpdate.BigmapValue (OpFields.BigmapDiff op' ! i)))
             else BigmapValue.Value (BigmapUpdate.BigmapValue (OpFields.BigmapDiff op' ! i)) = JNull))
       \<and> (\<not> Type_IsValid x micheline_Type_zero \<longrightarrow>
            value_type_resolved x rcv (bmd ! i) =
              (\<exists>typ. OpFields.bigmaps (flds rcv) (BigmapEvent.Id (bmd ! i)) = Some typ
                     \<and> Type_IsValid x (Type_Right x typ)))"
proof -
  have us: "Op_bigmap_updates x rcv op bmd = Inr (OpFields.BigmapDiff op')"
    using assms(1-4) by (simp add: Op_column_big_map_diff_case Op_column_big_map_diff_updates)
  have len: "length (OpFields.BigmapDiff op') = length bmd"
    using Op_bigmap_updates_nth [OF us] by simp
  have u: "Op_bigmap_update x rcv op (bmd ! i) = Inr (OpFields.BigmapDiff op' ! i)"
    using Op_bigmap_updates_nth [OF us] assms(5) by simp
  note val = Op_bigmap_update_value [OF u]
  have r: "\<not> Type_IsValid x micheline_Type_zero \<Longrightarrow>
            value_type_resolved x rcv (bmd ! i) =
              (\<exists>typ. OpFields.bigmaps (flds rcv) (BigmapEvent.Id (bmd ! i)) = Some typ
                     \<and> Type_IsValid x (Type_Right x typ))"
    by (auto simp: value_type_resolved_def Op_bigmap_types_def split: option.splits)
  show ?thesis using len val r by auto
qed

text \<open>
  The three example events: an update and a removal of big-map 5, whose type the example
  receiver has, and an allocation.
\<close>

theorem bigmap_value_presence_witness:
  "\<exists>op'. Op_column example_ext (example_receiver []) ''big_map_diff'' (JString ''00'') OpFields_zero = Inr op'
     \<and> \<not> Type_IsValid example_ext micheline_Type_zero
     \<and> value_type_resolved example_ext (example_receiver []) (example_events ! 0)
     \<and> value_type_resolved example_ext (example_receiver []) (example_events ! 1)
     \<and> length (OpFields.BigmapDiff op') = 3
     \<and> BigmapValue.Value (BigmapUpdate.BigmapValue (OpFields.BigmapDiff op' ! 0)) = JString ''v1''
     \<and> BigmapValue.Value (BigmapUpdate.BigmapValue (OpFields.BigmapDiff op' ! 1)) = JNull
     \<and> BigmapValue.Value (BigmapUpdate.BigmapValue (OpFields.BigmapDiff op' ! 2)) = JNull"
proof -
  obtain op' where op': "Op_column example_ext (example_receiver []) ''big_map_diff'' (JString ''00'')
      OpFields_zero = Inr op'"
    using example_big_map_diff_returns by blast
  have n: "length example_events = 3" by (simp add: example_events_def)
  have res: "value_type_resolved example_ext (example_receiver []) (example_events ! 0)"
    and res1: "value_type_resolved example_ext (example_receiver []) (example_events ! 1)"
    by (simp_all add: value_type_resolved_def Op_bigmap_types_def example_receiver_def
        example_events_def example_IsValid example_Right micheline_Type_zero_def
        micheline_Prim_zero_def)
  have z: "\<not> Type_IsValid example_ext micheline_Type_zero"
    by (simp add: example_IsValid)
  have a0: "BigmapEvent.Action (example_events ! 0) = DiffActionUpdate"
    and a1: "BigmapEvent.Action (example_events ! 1) = DiffActionRemove"
    and a2: "BigmapEvent.Action (example_events ! 2) = DiffActionAlloc"
    and v0: "BigmapEvent.Value (example_events ! 0) = MPrim ''v1''"
    by (simp_all add: example_events_def)
  have w0: "BigmapValue.Value (BigmapUpdate.BigmapValue (OpFields.BigmapDiff op' ! 0)) = JString ''v1''"
    using bigmap_value_presence [OF op' example_hex _ example_bmd, of 0] n res a0 v0
    by (simp add: example_Value_Map)
  have w1: "BigmapValue.Value (BigmapUpdate.BigmapValue (OpFields.BigmapDiff op' ! 1)) = JNull"
    using bigmap_value_presence [OF op' example_hex _ example_bmd, of 1] n a1 by simp
  have w2: "BigmapValue.Value (BigmapUpdate.BigmapValue (OpFields.BigmapDiff op' ! 2)) = JNull"
    using bigmap_value_presence [OF op' example_hex _ example_bmd, of 2] n a2 by simp
  have l: "length (OpFields.BigmapDiff op') = 3"
    using bigmap_value_presence [OF op' example_hex _ example_bmd, of 0] n by simp
  show ?thesis using op' l w0 w1 w2 res res1 z by blast
qed

section \<open>A batch of rows\<close>

text \<open>
  C6. For every number N of rows, a batch decode that succeeds appends exactly N records
  to the list, the i-th of them being the decode of the i-th row: a list that was empty
  has exactly N records afterwards, in the order of the input. And the batch decode
  does succeed when the input is an array each of whose rows decodes. This holds for
  lists of operations and for lists of blocks.
\<close>

theorem batch_decodes_in_order:
  assumes "json_Unmarshal_RawMessages x data = Inr array"
    and "data \<noteq> []" and "data \<noteq> ''null''"
  shows "(OpList_UnmarshalJSON x data (l, c) = (None, l', c') \<longrightarrow>
            (\<exists>ops. length ops = length array
               \<and> OpList.Rows l' = OpList.Rows l @ map Some ops
               \<and> (\<forall>i<length array. \<exists>ci ci'. OpList_row x l (array ! i) ci = (Inr (ops ! i), ci')))
          \<and> (OpList.Rows l = [] \<longrightarrow> length (OpList.Rows l') = length array))
       \<and> (BlockList_UnmarshalJSON x data bl = (None, bl') \<longrightarrow>
            (\<exists>blocks. length blocks = length array
               \<and> BlockList.Rows bl' = BlockList.Rows bl @ map Some blocks
               \<and> (\<forall>i<length array. BlockList_row x bl (array ! i) = Inr (blocks ! i)))
          \<and> (BlockList.Rows bl = [] \<longrightarrow> length (BlockList.Rows bl') = length array))
       \<and> (data ! 0 = CHR ''[''
            \<and> (\<forall>v\<in>set array. \<forall>c0. \<exists>op c1. OpList_row x l v c0 = (Inr op, c1)) \<longrightarrow>
            fst (OpList_UnmarshalJSON x data (l, c)) = None)
       \<and> (data ! 0 = CHR ''['' \<and> (\<forall>v\<in>set array. \<exists>r. BlockList_row x bl v = Inr r) \<longrightarrow>
            fst (BlockList_UnmarshalJSON x data bl) = None)"
proof -
  have o: "OpList_UnmarshalJSON x data (l, c) = (None, l', c') \<Longrightarrow>
             OpList_range_array x array (l, c) = (None, l', c')"
    using assms by (simp add: OpList_UnmarshalJSON_def split: if_splits)
  have b: "BlockList_UnmarshalJSON x data bl = (None, bl') \<Longrightarrow>
             BlockList_range_array x array bl = (None, bl')"
    using assms by (simp add: BlockList_UnmarshalJSON_def split: if_splits)
  have o1: "OpList_UnmarshalJSON x data (l, c) = (None, l', c') \<Longrightarrow>
            (\<exists>ops. length ops = length array
               \<and> OpList.Rows l' = OpList.Rows l @ map Some ops
               \<and> (\<forall>i<length array. \<exists>ci ci'. OpList_row x l (array ! i) ci = (Inr (ops ! i), ci')))"
    using o OpList_range_array_rows by blast
  have o2: "OpList_UnmarshalJSON x data (l, c) = (None, l', c') \<Longrightarrow> OpList.Rows l = [] \<Longrightarrow>
            length (OpList.Rows l') = length array"
    using o1 by auto
  have b1: "BlockList_UnmarshalJSON x data bl = (None, bl') \<Longrightarrow>
            (\<exists>blocks. length blocks = length array
               \<and> BlockList.Rows bl' = BlockList.Rows bl @ map Some blocks
               \<and> (\<forall>i<length array. BlockList_row x bl (array ! i) = Inr (blocks ! i)))"
    using b BlockList_range_array_rows by blast
  have b2: "BlockList_UnmarshalJSON x data bl = (None, bl') \<Longrightarrow> BlockList.Rows bl = [] \<Longrightarrow>
            length (BlockList.Rows bl') = length array"
    using b1 by auto
  have o3: "data ! 0 = CHR ''[''  \<Longrightarrow>
            \<forall>v\<in>set array. \<forall>c0. \<exists>op c1. OpList_row x l v c0 = (Inr op, c1) \<Longrightarrow>
            fst (OpList_UnmarshalJSON x data (l, c)) = None"
    using assms OpList_range_array_succeeds [of array x l c]
    by (simp add: OpList_UnmarshalJSON_def)
  have b3: "data ! 0 = CHR ''[''  \<Longrightarrow> \<forall>v\<in>set array. \<exists>r. BlockList_row x bl v = Inr r \<Longrightarrow>
            fst (BlockList_UnmarshalJSON x data bl) = None"
    using assms BlockList_range_array_succeeds [of array x bl]
    by (simp add: BlockList_UnmarshalJSON_def)
  show ?thesis using o1 o2 b1 b2 o3 b3 by blast
qed

text \<open>A batch of two rows.\<close>

theorem batch_decodes_in_order_witness:
  "json_Unmarshal_RawMessages example_ext ''[[7],[8]]'' = Inr [''[7]'', ''[8]'']
   \<and> OpList_UnmarshalJSON example_ext ''[[7],[8]]''
       (\<lparr>OpList.Rows = [], OpList.withPrim = False, OpList.columns = [''id'']\<rparr>, \<lparr>cache = Map.empty\<rparr>)
     = (None,
        \<lparr>OpList.Rows = [Some (Op (OpFields_zero\<lparr>OpFields.Id := 7\<rparr>) [] []),
                         Some (Op (OpFields_zero\<lparr>OpFields.Id := 8\<rparr>) [] [])],
         OpList.withPrim = False, OpList.columns = [''id'']\<rparr>, \<lparr>cache = Map.empty\<rparr>)
   \<and> length [Some (Op (OpFields_zero\<lparr>OpFields.Id := 7\<rparr>) [] []),
              Some (Op (OpFields_zero\<lparr>OpFields.Id := 8\<rparr>) [] [])] = length [''[7]'', ''[8]'']
   \<and> BlockList_UnmarshalJSON example_ext ''[[7],[8]]''
       \<lparr>BlockList.Rows = [], BlockList.columns = [''row_id'']\<rparr>
     = (None,
        \<lparr>BlockList.Rows = [Some (Block_zero\<lparr>Block.RowId := 7\<rparr>), Some (Block_zero\<lparr>Block.RowId := 8\<rparr>)],
         BlockList.columns = [''row_id'']\<rparr>)
   \<and> length [Some (Block_zero\<lparr>Block.RowId := 7\<rparr>), Some (Block_zero\<lparr>Block.RowId := 8\<rparr>)]
       = length [''[7]'', ''[8]'']
   \<and> fst (OpList_UnmarshalJSON example_ext ''[[7],[8]]''
       (\<lparr>OpList.Rows = [], OpList.withPrim = False, OpList.columns = [''id'']\<rparr>, \<lparr>cache = Map.empty\<rparr>))
     = None
   \<and> fst (BlockList_UnmarshalJSON example_ext ''[[7],[8]]''
       \<lparr>BlockList.Rows = [], BlockList.columns = [''row_id'']\<rparr>) = None"
  using batch_decodes_in_order [OF example_arrays_two, of
      "\<lparr>OpList.Rows = [], OpList.withPrim = False, OpList.columns = [''id'']\<rparr>" "\<lparr>cache = Map.empty\<rparr>"
      _ _ "\<lparr>BlockList.Rows = [], BlockList.columns = [''row_id'']\<rparr>"]
    example_OpList_two example_BlockList_two example_arrays_two
    example_OpList_row_seven example_OpList_row_eight
    example_BlockList_row_seven example_BlockList_row_eight
  by simp

section \<open>A null value\<close>



section \<open>Index bounds\<close>

text \<open>
  C8. Both columnar decoders read \<open>unpacked[i]\<close> for every index of the column list with
  no bounds check. When the row has at least as many values as there are columns, no
  decode panics with an index out of range. When the column list is longer than the
  row's values, the decode never succeeds, and it panics with an index out of range as
  soon as the columns that have a value decode without a fault: a decode that always
  returns needs \<open>len(values) \<ge> len(columns)\<close>.
\<close>

theorem columns_index_in_bounds:
  assumes "json_Decode x data = Inr unpacked"
  shows "(length (OpFields.columns (flds rcv)) \<le> length unpacked \<longrightarrow>
            fst (Op_UnmarshalJSONBrief x data rcv) \<noteq> Some (Panic IndexOutOfRange))
       \<and> (length unpacked < length (OpFields.columns (flds rcv)) \<longrightarrow>
            fst (Op_UnmarshalJSONBrief x data rcv) \<noteq> None
          \<and> (\<forall>op. range_columns (Op_column x rcv) unpacked 0
                     (take (length unpacked) (OpFields.columns (flds rcv))) OpFields_zero = Inr op
                \<longrightarrow> Op_UnmarshalJSONBrief x data rcv = (Some (Panic IndexOutOfRange), rcv)))
       \<and> (length (Block.columns b) \<le> length unpacked \<longrightarrow>
            fst (Block_UnmarshalJSONBrief x data b) \<noteq> Some (Panic IndexOutOfRange))
       \<and> (length unpacked < length (Block.columns b) \<longrightarrow>
            fst (Block_UnmarshalJSONBrief x data b) \<noteq> None
          \<and> (\<forall>block. range_columns (Block_column x) unpacked 0
                     (take (length unpacked) (Block.columns b)) Block_zero = Inr block
                \<longrightarrow> Block_UnmarshalJSONBrief x data b = (Some (Panic IndexOutOfRange), b)))"
proof -
  have op_step: "\<And>v f s e. Op_column x rcv v f s = Inl e \<Longrightarrow> e \<noteq> Panic IndexOutOfRange"
    using Op_column_Inl column_fault_not_index by blast
  have bl_step: "\<And>v f s e. Block_column x v f s = Inl e \<Longrightarrow> e \<noteq> Panic IndexOutOfRange"
    using Block_column_Inl column_fault_not_index by blast
  have a: "length (OpFields.columns (flds rcv)) \<le> length unpacked \<Longrightarrow>
             fst (Op_UnmarshalJSONBrief x data rcv) \<noteq> Some (Panic IndexOutOfRange)"
    using range_columns_no_index_panic [of "Op_column x rcv" 0 "OpFields.columns (flds rcv)" unpacked OpFields_zero]
      op_step assms
    by (auto simp: Op_UnmarshalJSONBrief_def split: sum.splits)
  have b: "length unpacked < length (OpFields.columns (flds rcv)) \<Longrightarrow>
             fst (Op_UnmarshalJSONBrief x data rcv) \<noteq> None"
    using range_columns_short_fails [of unpacked 0 "OpFields.columns (flds rcv)" "Op_column x rcv" OpFields_zero]
      assms
    by (auto simp: Op_UnmarshalJSONBrief_def split: sum.splits)
  have c: "\<And>op. length unpacked < length (OpFields.columns (flds rcv)) \<Longrightarrow>
             range_columns (Op_column x rcv) unpacked 0
               (take (length unpacked) (OpFields.columns (flds rcv))) OpFields_zero = Inr op \<Longrightarrow>
             Op_UnmarshalJSONBrief x data rcv = (Some (Panic IndexOutOfRange), rcv)"
    using range_columns_short_panics [of unpacked "OpFields.columns (flds rcv)" "Op_column x rcv" OpFields_zero]
      assms
    by (simp add: Op_UnmarshalJSONBrief_def)
  have a': "length (Block.columns b) \<le> length unpacked \<Longrightarrow>
             fst (Block_UnmarshalJSONBrief x data b) \<noteq> Some (Panic IndexOutOfRange)"
    using range_columns_no_index_panic [of "Block_column x" 0 "Block.columns b" unpacked Block_zero]
      bl_step assms
    by (auto simp: Block_UnmarshalJSONBrief_def split: sum.splits)
  have b': "length unpacked < length (Block.columns b) \<Longrightarrow>
             fst (Block_UnmarshalJSONBrief x data b) \<noteq> None"
    using range_columns_short_fails [of unpacked 0 "Block.columns b" "Block_column x" Block_zero]
      assms
    by (auto simp: Block_UnmarshalJSONBrief_def split: sum.splits)
  have c': "\<And>block. length unpacked < length (Block.columns b) \<Longrightarrow>
             range_columns (Block_column x) unpacked 0
               (take (length unpacked) (Block.columns b)) Block_zero = Inr block \<Longrightarrow>
             Block_UnmarshalJSONBrief x data b = (Some (Panic IndexOutOfRange), b)"
    using range_columns_short_panics [of unpacked "Block.columns b" "Block_column x" Block_zero]
      assms
    by (simp add: Block_UnmarshalJSONBrief_def)
  show ?thesis using a b c a' b' c' by blast
qed

text \<open>The row \<open>[7]\<close> with one column, and with two.\<close>

theorem columns_index_in_bounds_witness:
  "json_Decode example_ext ''[7]'' = Inr [JNumber ''7'']
   \<and> fst (Op_UnmarshalJSONBrief example_ext ''[7]''
            (Op (OpFields_zero\<lparr>OpFields.columns := [''id'']\<rparr>) [] [])) \<noteq> Some (Panic IndexOutOfRange)
   \<and> Op_UnmarshalJSONBrief example_ext ''[7]''
        (Op (OpFields_zero\<lparr>OpFields.columns := [''id'', ''hash'']\<rparr>) [] [])
      = (Some (Panic IndexOutOfRange), Op (OpFields_zero\<lparr>OpFields.columns := [''id'', ''hash'']\<rparr>) [] [])
   \<and> fst (Block_UnmarshalJSONBrief example_ext ''[7]''
            (Block_zero\<lparr>Block.columns := [''row_id'']\<rparr>)) \<noteq> Some (Panic IndexOutOfRange)
   \<and> Block_UnmarshalJSONBrief example_ext ''[7]'' (Block_zero\<lparr>Block.columns := [''row_id'', ''hash'']\<rparr>)
      = (Some (Panic IndexOutOfRange), Block_zero\<lparr>Block.columns := [''row_id'', ''hash'']\<rparr>)"
proof -
  have d: "json_Decode example_ext ''[7]'' = Inr [JNumber ''7'']"
    by (simp add: example_ext_def example_lookup_def example_json_def)
  have u: "strconv_ParseUint example_ext ''7'' = Inr 7"
    by (simp add: example_ext_def example_lookup_def example_numbers_def)
  have o1: "range_columns (Op_column example_ext (Op (OpFields_zero\<lparr>OpFields.columns := [''id'', ''hash'']\<rparr>) [] []))
              [JNumber ''7''] 0 [''id''] OpFields_zero = Inr (OpFields_zero\<lparr>OpFields.Id := 7\<rparr>)"
    by (simp add: Op_column_def parse_Number_def assert_Number_def returned_def assign_def u)
  have b1: "range_columns (Block_column example_ext) [JNumber ''7''] 0 [''row_id''] Block_zero
              = Inr (Block_zero\<lparr>Block.RowId := 7\<rparr>)"
    by (simp add: Block_column_def parse_Number_def assert_Number_def returned_def assign_def u)
  show ?thesis
    using columns_index_in_bounds [OF d, of "Op (OpFields_zero\<lparr>OpFields.columns := [''id'']\<rparr>) [] []"
        "Block_zero\<lparr>Block.columns := [''row_id'']\<rparr>"]
      columns_index_in_bounds [OF d, of "Op (OpFields_zero\<lparr>OpFields.columns := [''id'', ''hash'']\<rparr>) [] []"
        "Block_zero\<lparr>Block.columns := [''row_id'', ''hash'']\<rparr>"]
      o1 b1 d
    by simp
qed

section \<open>The metadata of a big-map update\<close>

text \<open>
  C9. When metadata is requested, the metadata of each \<open>update\<close> or \<open>remove\<close> record takes
  its contract, time and height from the scratch record as the columns before
  \<open>big_map_diff\<close> left it. So when the column \<open>receiver\<close>, \<open>time\<close> or \<open>height\<close> does not stand
  before \<open>big_map_diff\<close> in the column list (it stands after it, or nowhere), the metadata
  has the zero value in that field, whatever the row holds in the column.
\<close>

theorem bigmap_meta_from_earlier_columns:
  assumes "OpFields.withMeta (flds rcv)"
    and "json_Decode x data = Inr unpacked"
    and "OpFields.columns (flds rcv) = pre @ ''big_map_diff'' # post"
    and "''big_map_diff'' \<notin> set post"
    and "length pre < length unpacked" and "unpacked ! length pre = JString h"
    and "hex_DecodeString x h = Inr buf" and "buf \<noteq> []"
    and "BigmapEvents_UnmarshalBinary x buf = Inr bmd"
    and "range_columns (Op_column x rcv) unpacked 0 pre OpFields_zero = Inr op"
    and "Op_UnmarshalJSONBrief x data rcv = (None, r)"
    and "i < length bmd"
    and "BigmapEvent.Action (bmd ! i) = DiffActionUpdate \<or> BigmapEvent.Action (bmd ! i) = DiffActionRemove"
  shows "\<exists>m. BigmapValue.Meta (BigmapUpdate.BigmapValue (OpFields.BigmapDiff (flds r) ! i)) = Some m
           \<and> BigmapMeta.Contract m = OpFields.Receiver op
           \<and> BigmapMeta.BigmapId m = BigmapEvent.Id (bmd ! i)
           \<and> BigmapMeta.UpdateTime m = OpFields.Timestamp op
           \<and> BigmapMeta.UpdateHeight m = OpFields.Height op
           \<and> (''receiver'' \<notin> set pre \<longrightarrow> BigmapMeta.Contract m = tezos_Address_zero)
           \<and> (''time'' \<notin> set pre \<longrightarrow> BigmapMeta.UpdateTime m = TimeZero)
           \<and> (''height'' \<notin> set pre \<longrightarrow> BigmapMeta.UpdateHeight m = 0)"
proof -
  let ?step = "Op_column x rcv"
  obtain s where s: "range_columns ?step unpacked 0 (pre @ ''big_map_diff'' # post) OpFields_zero = Inr s"
    and r: "r = Op s [] []"
    using assms(2,3,11) by (auto simp: Op_UnmarshalJSONBrief_def split: sum.splits)
  have tail: "range_columns ?step unpacked (length pre) (''big_map_diff'' # post) op = Inr s"
    using s assms(10) by (simp add: range_columns_append)
  obtain op1 where op1: "Op_column x rcv ''big_map_diff'' (JString h) op = Inr op1"
    and post: "range_columns ?step unpacked (Suc (length pre)) post op1 = Inr s"
    using tail assms(5,6)
    by (cases "Op_column x rcv ''big_map_diff'' (JString h) op") auto
  have "OpFields.BigmapDiff s = OpFields.BigmapDiff op1"
    using range_columns_frame [of post ?step OpFields.BigmapDiff, OF _ post]
      Op_column_frame_BigmapDiff assms(4) by blast
  moreover have "Op_bigmap_updates x rcv op bmd = Inr (OpFields.BigmapDiff op1)"
    using op1 assms(7,8,9) by (simp add: Op_column_big_map_diff_case Op_column_big_map_diff_updates)
  ultimately have us: "Op_bigmap_updates x rcv op bmd = Inr (OpFields.BigmapDiff (flds r))"
    using r by simp
  have u: "Op_bigmap_update x rcv op (bmd ! i) = Inr (OpFields.BigmapDiff (flds r) ! i)"
    using Op_bigmap_updates_nth [OF us] assms(12) by simp
  note meta = Op_bigmap_update_meta [OF u assms(1) assms(13)]
  have z1: "''receiver'' \<notin> set pre \<Longrightarrow> OpFields.Receiver op = tezos_Address_zero"
    using range_columns_frame [of pre ?step OpFields.Receiver, OF _ assms(10)]
      Op_column_frame_Receiver by (fastforce simp: OpFields_zero_def)
  have z2: "''time'' \<notin> set pre \<Longrightarrow> OpFields.Timestamp op = TimeZero"
    using range_columns_frame [of pre ?step OpFields.Timestamp, OF _ assms(10)]
      Op_column_frame_Timestamp by (fastforce simp: OpFields_zero_def)
  have z3: "''height'' \<notin> set pre \<Longrightarrow> OpFields.Height op = 0"
    using range_columns_frame [of pre ?step OpFields.Height, OF _ assms(10)]
      Op_column_frame_Height by (fastforce simp: OpFields_zero_def)
  show ?thesis using meta z1 z2 z3 by simp
qed

text \<open>
  A row whose columns are \<open>big_map_diff\<close>, \<open>receiver\<close>, \<open>height\<close>: the decoded operation has
  the receiver and the height of the row, the metadata of its first update has neither.
\<close>

theorem bigmap_meta_from_earlier_columns_witness:
  \<open>\<exists>r m. Op_UnmarshalJSONBrief example_ext ''["00","KT1Puc9St8wdNoGtLiD2WXaHbWU7styaxYhD",3]''
            (example_receiver [''big_map_diff'', ''receiver'', ''height'']) = (None, r)
     \<and> OpFields.Receiver (flds r) = TzAddress ''KT1Puc9St8wdNoGtLiD2WXaHbWU7styaxYhD''
     \<and> OpFields.Height (flds r) = 3
     \<and> BigmapValue.Meta (BigmapUpdate.BigmapValue (OpFields.BigmapDiff (flds r) ! 0)) = Some m
     \<and> BigmapMeta.Contract m = tezos_Address_zero
     \<and> BigmapMeta.UpdateTime m = TimeZero
     \<and> BigmapMeta.UpdateHeight m = 0\<close>
proof -
  let ?cols = "[''big_map_diff'', ''receiver'', ''height'']"
  let ?rcv = "example_receiver ?cols"
  obtain op1 where op1: "Op_column example_ext ?rcv ''big_map_diff'' (JString ''00'') OpFields_zero = Inr op1"
    using example_big_map_diff_returns by blast
  let ?r = "Op (op1\<lparr>OpFields.Receiver := TzAddress ''KT1Puc9St8wdNoGtLiD2WXaHbWU7styaxYhD'',
                     OpFields.Height := 3\<rparr>) [] []"
  have cols: "OpFields.columns (flds ?rcv) = [] @ ''big_map_diff'' # [''receiver'', ''height'']"
    and meta: "OpFields.withMeta (flds ?rcv)"
    by (simp_all add: example_receiver_def)
  have brief: \<open>Op_UnmarshalJSONBrief example_ext ''["00","KT1Puc9St8wdNoGtLiD2WXaHbWU7styaxYhD",3]'' ?rcv
                 = (None, ?r)\<close>
    using op1
    by (simp add: Op_UnmarshalJSONBrief_def example_json_row example_receiver_def
        example_column_receiver example_column_height)
  have act: "BigmapEvent.Action (example_events ! 0) = DiffActionUpdate
             \<or> BigmapEvent.Action (example_events ! 0) = DiffActionRemove"
    and n: "0 < length example_events"
    by (simp_all add: example_events_def)
  obtain m where
    "BigmapValue.Meta (BigmapUpdate.BigmapValue (OpFields.BigmapDiff (flds ?r) ! 0)) = Some m"
    "BigmapMeta.Contract m = tezos_Address_zero" "BigmapMeta.UpdateTime m = TimeZero"
    "BigmapMeta.UpdateHeight m = 0"
    using bigmap_meta_from_earlier_columns [OF meta example_json_row cols _ _ _ example_hex _
        example_bmd _ brief n act, of OpFields_zero]
    by auto
  then show ?thesis using brief by auto
qed

section \<open>Short inputs\<close>

text \<open>
  C10. On an input that is empty, that is the literal \<open>null\<close>, or that is two bytes long,
  whatever the two bytes are, \<open>Op.UnmarshalJSON\<close> and \<open>Block.UnmarshalJSON\<close> return no error
  and leave the receiver as it was.
\<close>

theorem UnmarshalJSON_short_input_unchanged:
  assumes "data = [] \<or> data = ''null'' \<or> length data = 2"
  shows "Op_UnmarshalJSON x data rcv = (None, rcv) \<and> Block_UnmarshalJSON x data b = (None, b)"
  using assms by (auto simp: Op_UnmarshalJSON_def Block_UnmarshalJSON_def)

text \<open>The two-byte input \<open>42\<close>, a number.\<close>

theorem UnmarshalJSON_short_input_unchanged_witness:
  "length ''42'' = 2
   \<and> Op_UnmarshalJSON example_ext ''42'' (example_receiver [''id'']) = (None, example_receiver [''id''])
   \<and> Block_UnmarshalJSON example_ext ''42'' (Block_zero\<lparr>Block.columns := [''row_id'']\<rparr>)
       = (None, Block_zero\<lparr>Block.columns := [''row_id'']\<rparr>)"
  using UnmarshalJSON_short_input_unchanged [of "''42''" example_ext "example_receiver [''id'']"
      "Block_zero\<lparr>Block.columns := [''row_id'']\<rparr>"]
  by simp

end
